theory Spec2Isabelle
  imports Complex_Main
begin

section \<open>SwasthyaSathi: document upload, storage quota and enrichment\<close>

text \<open>
  A shallow embedding of the backend services of the repository:
  \<^item> \<open>DocumentService\<close> (document.service.ts): \<open>uploadDocument\<close>, \<open>getDocument\<close>,
    \<open>updateDocument\<close>, \<open>deleteDocument\<close>, \<open>checkStorageQuota\<close>, \<open>formatFileSize\<close>,
    \<open>processDocumentWithOCR\<close>, \<open>processDocumentWithAI\<close>, \<open>mapDbDocumentToDocument\<close>;
  \<^item> \<open>S3Service\<close> (s3.service.ts): \<open>uploadDocument\<close>, \<open>deleteDocument\<close>, \<open>deleteThumbnail\<close>;
  \<^item> \<open>OcrService\<close> (ocr.service.ts): \<open>extractText\<close>, \<open>calculateAverageConfidence\<close>;
  \<^item> \<open>AuthService\<close> (auth.service.ts): \<open>validatePassword\<close>, \<open>validatePhoneNumber\<close>,
    \<open>register\<close>, \<open>login\<close>;
  \<^item> the authentication routes (auth.routes.ts): the validation chains and the handlers of
    \<open>POST /register\<close> and \<open>POST /login\<close>, the only callers of \<open>AuthService\<close>.

  Modelling decisions.
  \<^item> The relational database and the object store are an explicit state (\<open>world\<close>): one
    list of rows per table of schema.sql, and the list of URLs of the stored objects. Each
    service method takes the state and returns its answer with the new state. The
    constraints of schema.sql that the methods can run into (primary keys, the unique
    \<open>document_id\<close> of \<open>document_ai_analysis\<close>, the foreign keys) are written out: a
    violating statement raises, as PostgreSQL does.
  \<^item> What the outside world answers (the fresh UUIDs, whether a request to the object
    store succeeds, what the OCR engine and the language model reply, the bcrypt and JWT
    functions) is a parameter of the method, so every theorem holds for every answer.
    Database statements themselves do not fail for reasons other than the constraints.
  \<^item> JavaScript numbers that the modelled code computes with are byte counts; they are
    modelled as \<open>int\<close>. The \<open>BIGINT\<close> columns hold an \<open>int\<close>; arithmetic inside an SQL
    statement is arithmetic on it. A row read from the database carries a \<open>BIGINT\<close> column as
    the string of its decimal digits: the pool (database/pool.ts) registers no type parser,
    the \<open>pg\<close> driver then delivers \<open>int8\<close> as text, and the source itself applies \<open>parseInt\<close> to
    \<open>file_size\<close>. Where the source applies \<open>+\<close> and \<open>>\<close> to such values they are the
    JavaScript operators on strings. Confidence values are \<open>real\<close>. \<open>formatFileSize\<close> is
    computed in exact arithmetic. The length limits of the \<open>VARCHAR\<close> columns are left out.
  \<^item> Strings are lists of 8-bit characters; the class \<open>\s\<close> of the regular expressions is
    its part below code point 256.
  \<^item> A field that can be \<open>undefined\<close> or \<open>null\<close> is an \<open>option\<close>. Timestamps and logging
    are left out. The detached enrichment tasks that \<open>uploadDocument\<close> starts are the
    separate operations \<open>processDocumentWithOCR\<close> and \<open>processDocumentWithAI\<close>.
\<close>

subsection \<open>Shared types (shared/src/types.ts)\<close>

datatype DocumentType =
  LAB_REPORT | PRESCRIPTION | MEDICAL_CERTIFICATE | XRAY | CT_SCAN | MRI | OTHER

datatype DocumentStatus = PENDING_PROCESSING | PROCESSED | FAILED

datatype OcrStatus = OCR_PENDING | OCR_PROCESSING | OCR_COMPLETED | OCR_FAILED

datatype ErrorCode =
  UNAUTHORIZED | FORBIDDEN | NOT_FOUND | VALIDATION_ERROR | SERVER_ERROR
  | DUPLICATE_EMAIL | DUPLICATE_PHONE | INVALID_CREDENTIALS | WEAK_PASSWORD
  | FILE_TOO_LARGE | UNSUPPORTED_FILE_TYPE | STORAGE_QUOTA_EXCEEDED
  | OCR_PROCESSING_FAILED | OCR_QUOTA_EXCEEDED | OCR_TIMEOUT

text \<open>\<open>ApiResponse<T>\<close>: \<open>{success: true, data}\<close> or \<open>{success: false, error: {code, message}}\<close>.\<close>

datatype 'a ApiResponse = Success 'a | Failure ErrorCode string

text \<open>A JavaScript value as \<open>JSON.parse\<close> produces it.\<close>

datatype json =
  JNull | JBool bool | JNum real | JStr string | JArr "json list" | JObj "(string \<times> json) list"

record AiAnalysis =
  ai_extractedText :: "json option"
  ai_summary :: "json option"
  ai_insights :: json

record Document =
  doc_id :: string
  doc_userId :: string
  doc_type :: DocumentType
  doc_title :: "string option"
  doc_description :: "string option"
  doc_notes :: "string option"
  doc_fileUrl :: string
  doc_thumbnailUrl :: "string option"
  doc_fileSize :: int
  doc_mimeType :: string
  doc_status :: DocumentStatus
  doc_ocrStatus :: "OcrStatus option"
  doc_aiAnalysis :: "AiAnalysis option"

record UploadDocumentRequest =
  req_type :: "DocumentType option"
  req_title :: "string option"
  req_description :: "string option"
  processWithAI :: bool
  processWithOCR :: bool

record UpdateDocumentRequest =
  upd_title :: "string option"
  upd_description :: "string option"
  upd_notes :: "string option"
  upd_type :: "DocumentType option"

text \<open>\<open>Express.Multer.File\<close>, the fields the service reads.\<close>

record multer_file =
  size_file :: int
  mimetype :: string
  buffer :: string

subsection \<open>The database (schema.sql and its migrations) and the object store\<close>

record user_row =
  u_id :: string
  u_phone_number :: string
  u_password_hash :: string
  u_full_name :: string
  u_country :: string
  u_storage_used :: int
  u_storage_quota :: int

record doc_row =
  d_id :: string
  d_user_id :: string
  d_type :: DocumentType
  d_title :: "string option"
  d_description :: "string option"
  d_notes :: "string option"
  d_file_url :: string
  d_thumbnail_url :: "string option"
  d_file_size :: int
  d_mime_type :: string
  d_status :: DocumentStatus
  d_ocr_status :: "OcrStatus option"

record analysis_row =
  a_document_id :: string
  a_extracted_text :: "json option"
  a_summary :: "json option"
  a_insights :: "json option"

record world =
  users :: "user_row list"
  user_profiles :: "string list"
  documents :: "doc_row list"
  document_ai_analysis :: "analysis_row list"
  s3_objects :: "string list"

definition BIGINT_MAX :: int where
  "BIGINT_MAX = 9223372036854775807"

definition DEFAULT_STORAGE_QUOTA :: int where
  "DEFAULT_STORAGE_QUOTA = 104857600"

text \<open>\<open>SELECT ... FROM users WHERE id = $1\<close>, first row.\<close>

definition select_user :: "string \<Rightarrow> world \<Rightarrow> user_row option" where
  "select_user uid w = find (\<lambda>r. u_id r = uid) (users w)"

text \<open>\<open>SELECT * FROM documents WHERE id = $1 AND user_id = $2\<close>, first row.\<close>

definition select_document :: "string \<Rightarrow> string \<Rightarrow> world \<Rightarrow> doc_row option" where
  "select_document did uid w = find (\<lambda>r. d_id r = did \<and> d_user_id r = uid) (documents w)"

text \<open>\<open>SELECT ... FROM document_ai_analysis WHERE document_id = $1\<close>, first row.\<close>

definition select_analysis :: "string \<Rightarrow> world \<Rightarrow> analysis_row option" where
  "select_analysis did w = find (\<lambda>r. a_document_id r = did) (document_ai_analysis w)"

text \<open>
  \<open>INSERT INTO documents\<close>: the primary key \<open>id\<close> and the foreign key \<open>user_id\<close> are checked;
  a violation raises (\<open>None\<close>).
\<close>

definition insert_document :: "doc_row \<Rightarrow> world \<Rightarrow> world option" where
  "insert_document r w =
     (if d_id r \<in> set (map d_id (documents w)) then None
      else if d_user_id r \<notin> set (map u_id (users w)) then None
      else Some (w\<lparr>documents := documents w @ [r]\<rparr>))"

text \<open>
  \<open>UPDATE users SET storage_used = storage_used + $1 WHERE id = $2\<close>; a value out of the
  range of \<open>BIGINT\<close> raises (\<open>None\<close>).
\<close>

definition add_storage_used :: "int \<Rightarrow> string \<Rightarrow> world \<Rightarrow> world option" where
  "add_storage_used n uid w =
     (if list_ex (\<lambda>r. u_id r = uid \<and> u_storage_used r + n > BIGINT_MAX) (users w) then None
      else Some (w\<lparr>users :=
        map (\<lambda>r. if u_id r = uid then r\<lparr>u_storage_used := u_storage_used r + n\<rparr> else r)
          (users w)\<rparr>))"

text \<open>\<open>UPDATE users SET storage_used = GREATEST(storage_used - $1, 0) WHERE id = $2\<close>.\<close>

definition sub_storage_used :: "int \<Rightarrow> string \<Rightarrow> world \<Rightarrow> world" where
  "sub_storage_used n uid w =
     w\<lparr>users :=
       map (\<lambda>r. if u_id r = uid then r\<lparr>u_storage_used := max (u_storage_used r - n) 0\<rparr> else r)
         (users w)\<rparr>"

text \<open>
  \<open>DELETE FROM documents WHERE id = $1\<close>; the rows of \<open>document_ai_analysis\<close> that reference
  the document go with it (\<open>ON DELETE CASCADE\<close>).
\<close>

definition delete_document_row :: "string \<Rightarrow> world \<Rightarrow> world" where
  "delete_document_row did w =
     w\<lparr>documents := filter (\<lambda>r. d_id r \<noteq> did) (documents w),
       document_ai_analysis := filter (\<lambda>r. a_document_id r \<noteq> did) (document_ai_analysis w)\<rparr>"

subsection \<open>\<open>formatFileSize\<close>\<close>

fun ilog1024 :: "nat \<Rightarrow> nat" where
  "ilog1024 n = (if n < 1024 then 0 else Suc (ilog1024 (n div 1024)))"

declare ilog1024.simps [simp del]

definition digit_char :: "nat \<Rightarrow> char" where
  "digit_char n = ''0123456789'' ! (n mod 10)"

fun show_nat :: "nat \<Rightarrow> string" where
  "show_nat n = (if n < 10 then [digit_char n] else show_nat (n div 10) @ [digit_char n])"

declare show_nat.simps [simp del]

text \<open>
  The text of the number \<open>r / 100\<close>, as JavaScript prints a number with at most two
  decimals: no trailing zero, no decimal point for a whole number.
\<close>

definition show_hundredths :: "nat \<Rightarrow> string" where
  "show_hundredths r =
     show_nat (r div 100) @
       (if r mod 100 = 0 then ''''
        else if r mod 10 = 0 then ''.'' @ [digit_char (r mod 100 div 10)]
        else ''.'' @ [digit_char (r mod 100 div 10), digit_char (r mod 10)])"

definition sizes :: "string list" where
  "sizes = [''Bytes'', ''KB'', ''MB'', ''GB'']"

text \<open>
  \<open>i = Math.floor(Math.log(bytes) / Math.log(1024))\<close>, then
  \<open>Math.round((bytes / Math.pow(1024, i)) * 100) / 100 + ' ' + sizes[i]\<close>.
  \<open>Math.round\<close> rounds a tie upwards. Beyond the table \<open>sizes[i]\<close> is \<open>undefined\<close>; of a
  negative number the logarithm is \<open>NaN\<close>, and so are the index and the quotient.
  The index is the exact integer logarithm here. The source computes it in floating point,
  which can land on the next index just below a large power of 1024 (at \<open>2^50 - 1\<close> the
  source prints \<open>1 undefined\<close>); the two agree on the byte counts of this development, all
  below \<open>2^30\<close>.
\<close>

definition formatFileSize :: "int \<Rightarrow> string" where
  "formatFileSize bytes =
     (if bytes = 0 then ''0 Bytes''
      else if bytes < 0 then ''NaN undefined''
      else
        (let i = ilog1024 (nat bytes);
             r = (nat bytes * 200 + 1024 ^ i) div (2 * 1024 ^ i)
         in show_hundredths r @ '' '' @ (if i < length sizes then sizes ! i else ''undefined'')))"

subsection \<open>\<open>S3Service\<close>\<close>

definition BUCKET_NAME :: string where
  "BUCKET_NAME = ''swasthyasathi-documents''"

definition AWS_REGION :: string where
  "AWS_REGION = ''ap-south-1''"

record UploadResult =
  fileUrl :: string
  thumbnailUrl :: "string option"
  fileSize :: int

text \<open>
  What happens outside during one \<open>S3Service.uploadDocument\<close>: the two UUIDs drawn, whether
  the \<open>PutObject\<close> of the original succeeds, and whether generating and storing the
  thumbnail succeeds.
\<close>

record s3_upload_env =
  file_uuid :: string
  thumb_uuid :: string
  put_ok :: bool
  thumb_ok :: bool

text \<open>
  \<open>getFileExtension\<close>: the lookup in the table of the source, \<open>.bin\<close> otherwise. (The
  source's object lookup also finds the keys every object inherits, such as
  \<open>constructor\<close>; \<open>uploadDocument\<close> only passes the MIME types of its allow-list.)
\<close>

definition getFileExtension :: "string \<Rightarrow> string" where
  "getFileExtension m =
     (case map_of [(''image/jpeg'', ''.jpg''), (''image/jpg'', ''.jpg''), (''image/png'', ''.png''),
                   (''image/gif'', ''.gif''), (''image/webp'', ''.webp''),
                   (''application/pdf'', ''.pdf'')] m of
        Some e \<Rightarrow> e | None \<Rightarrow> ''.bin'')"

definition isImageType :: "string \<Rightarrow> bool" where
  "isImageType m = (take 6 m = ''image/'')"

definition object_url :: "string \<Rightarrow> string" where
  "object_url key = ''https://'' @ BUCKET_NAME @ ''.s3.'' @ AWS_REGION @ ''.amazonaws.com/'' @ key"

text \<open>
  \<open>generateAndUploadThumbnail\<close>: the URL of the stored thumbnail, or the empty string when
  anything fails (the error is swallowed).
\<close>

definition generateAndUploadThumbnail ::
  "s3_upload_env \<Rightarrow> string \<Rightarrow> world \<Rightarrow> string \<times> world" where
  "generateAndUploadThumbnail e thumbnailName w =
     (if thumb_ok e
      then (object_url thumbnailName, w\<lparr>s3_objects := s3_objects w @ [object_url thumbnailName]\<rparr>)
      else ('''', w))"

text \<open>
  \<open>S3Service.uploadDocument\<close>: \<open>Inl\<close> is the raised \<open>Error('Failed to upload file to S3')\<close>.
  \<open>fileSize\<close> is \<open>buffer.length\<close>.
\<close>

definition s3_uploadDocument ::
  "s3_upload_env \<Rightarrow> string \<Rightarrow> string \<Rightarrow> string \<Rightarrow> world \<Rightarrow> string + (UploadResult \<times> world)" where
  "s3_uploadDocument e buf mimeType uid w =
     (let fileExtension = getFileExtension mimeType;
          fileName = uid @ ''/'' @ file_uuid e @ fileExtension;
          thumbnailName = uid @ ''/thumbnails/'' @ thumb_uuid e @ ''_thumb'' @ fileExtension
      in if \<not> put_ok e then Inl ''Failed to upload file to S3''
         else
           (let w1 = w\<lparr>s3_objects := s3_objects w @ [object_url fileName]\<rparr>;
                (turl, w2) = (if isImageType mimeType
                              then (case generateAndUploadThumbnail e thumbnailName w1 of
                                      (t, w') \<Rightarrow> (Some t, w'))
                              else (None, w1))
            in Inr (\<lparr>fileUrl = object_url fileName, thumbnailUrl = turl,
                     fileSize = int (length buf)\<rparr>, w2)))"

text \<open>
  \<open>S3Service.deleteDocument\<close> raises when the request fails; \<open>S3Service.deleteThumbnail\<close>
  swallows the failure.
\<close>

definition s3_deleteDocument :: "bool \<Rightarrow> string \<Rightarrow> world \<Rightarrow> world option" where
  "s3_deleteDocument ok url w =
     (if ok then Some (w\<lparr>s3_objects := filter (\<lambda>k. k \<noteq> url) (s3_objects w)\<rparr>) else None)"

definition s3_deleteThumbnail :: "bool \<Rightarrow> string \<Rightarrow> world \<Rightarrow> world" where
  "s3_deleteThumbnail ok url w =
     (if ok then w\<lparr>s3_objects := filter (\<lambda>k. k \<noteq> url) (s3_objects w)\<rparr> else w)"

subsection \<open>\<open>DocumentService\<close>\<close>

definition MAX_FILE_SIZE :: int where
  "MAX_FILE_SIZE = 5 * 1024 * 1024"

definition allowedTypes :: "string list" where
  "allowedTypes = [''image/jpeg'', ''image/jpg'', ''image/png'', ''image/gif'', ''application/pdf'']"

text \<open>JavaScript truthiness of a parsed value, and of a nullable column holding one.\<close>

fun truthy :: "json \<Rightarrow> bool" where
  "truthy JNull = False"
| "truthy (JBool b) = b"
| "truthy (JNum x) = (x \<noteq> 0)"
| "truthy (JStr s) = (s \<noteq> [])"
| "truthy (JArr xs) = True"
| "truthy (JObj kvs) = True"

definition truthy_opt :: "json option \<Rightarrow> bool" where
  "truthy_opt v = (case v of None \<Rightarrow> False | Some x \<Rightarrow> truthy x)"

text \<open>\<open>s || null\<close> for a string that may be absent: the empty string is falsy.\<close>

definition or_null :: "string option \<Rightarrow> string option" where
  "or_null v = (case v of None \<Rightarrow> None | Some s \<Rightarrow> if s = [] then None else Some s)"

text \<open>
  \<open>mapDbDocumentToDocument\<close>, applied to a row of \<open>documents\<close> and the columns of the
  \<open>LEFT JOIN\<close> with \<open>document_ai_analysis\<close> (absent when the query has no join or no row
  matches). \<open>parseInt(dbDoc.file_size)\<close> reads the text of the column back into its number.
\<close>

definition mapDbDocumentToDocument :: "doc_row \<Rightarrow> analysis_row option \<Rightarrow> Document" where
  "mapDbDocumentToDocument dbDoc da =
     \<lparr>doc_id = d_id dbDoc, doc_userId = d_user_id dbDoc, doc_type = d_type dbDoc,
      doc_title = d_title dbDoc, doc_description = d_description dbDoc,
      doc_notes = d_notes dbDoc, doc_fileUrl = d_file_url dbDoc,
      doc_thumbnailUrl = d_thumbnail_url dbDoc, doc_fileSize = d_file_size dbDoc,
      doc_mimeType = d_mime_type dbDoc, doc_status = d_status dbDoc,
      doc_ocrStatus = d_ocr_status dbDoc,
      doc_aiAnalysis =
        (case da of
           None \<Rightarrow> None
         | Some a \<Rightarrow>
             if truthy_opt (a_extracted_text a) \<or> truthy_opt (a_summary a)
             then Some \<lparr>ai_extractedText = a_extracted_text a, ai_summary = a_summary a,
                        ai_insights = (if truthy_opt (a_insights a) then the (a_insights a)
                                       else JArr [])\<rparr>
             else None)\<rparr>"

text \<open>
  The text of an integer: what the driver delivers for a \<open>BIGINT\<close> column, and what
  JavaScript's \<open>ToString\<close> gives for an integral number (below \<open>10^21\<close>).
\<close>

definition show_int :: "int \<Rightarrow> string" where
  "show_int i = (if i < 0 then CHR ''-'' # show_nat (nat (- i)) else show_nat (nat i))"

text \<open>JavaScript's \<open>ToNumber\<close> on the text of an integer.\<close>

definition digit_value :: "char \<Rightarrow> int" where
  "digit_value c = int (of_char c) - 48"

definition to_number :: "string \<Rightarrow> int" where
  "to_number s =
     (if s \<noteq> [] \<and> hd s = CHR ''-''
      then - foldl (\<lambda>a c. 10 * a + digit_value c) 0 (tl s)
      else foldl (\<lambda>a c. 10 * a + digit_value c) 0 s)"

text \<open>\<open>a < b\<close> on two strings: the lexicographic order of the code units.\<close>

fun js_string_less :: "string \<Rightarrow> string \<Rightarrow> bool" where
  "js_string_less [] [] = False"
| "js_string_less [] (y # ys) = True"
| "js_string_less (x # xs) [] = False"
| "js_string_less (x # xs) (y # ys) =
     ((of_char x :: nat) < of_char y \<or> (x = y \<and> js_string_less xs ys))"

text \<open>
  \<open>formatFileSize\<close> applied to the text of an integer. \<open>bytes === 0\<close> is false for a string,
  so the text \<open>0\<close> goes on to \<open>Math.log\<close>, which gives \<open>-Infinity\<close>, and the result is
  \<open>NaN undefined\<close>; otherwise the text is converted to its number by the arithmetic.
\<close>

definition formatFileSize_text :: "string \<Rightarrow> string" where
  "formatFileSize_text s =
     (if to_number s = 0 then ''NaN undefined'' else formatFileSize (to_number s))"

text \<open>
  \<open>checkStorageQuota\<close>: \<open>(allowed, message)\<close>. \<open>storage_used\<close> and \<open>storage_quota\<close> come out
  of \<open>result.rows[0]\<close> as strings and \<open>fileSize\<close> is a number: \<open>storage_used + fileSize\<close>
  appends the digits of the file size to those of the counter, and
  \<open>newStorageUsed > storage_quota\<close> compares two strings. \<open>storage_quota - storage_used\<close>
  converts both to numbers.
\<close>

definition checkStorageQuota :: "string \<Rightarrow> int \<Rightarrow> world \<Rightarrow> bool \<times> string option" where
  "checkStorageQuota uid fsize w =
     (case select_user uid w of
        None \<Rightarrow> (False, Some ''User not found'')
      | Some row \<Rightarrow>
          (let storage_used = show_int (u_storage_used row);
               storage_quota = show_int (u_storage_quota row);
               newStorageUsed = storage_used @ show_int fsize
           in if js_string_less storage_quota newStorageUsed
              then (let remaining = to_number storage_quota - to_number storage_used
                    in (False, Some (''Storage quota exceeded. You have '' @ formatFileSize remaining
                          @ '' remaining of your '' @ formatFileSize_text storage_quota
                          @ '' quota.'')))
              else (True, None)))"

text \<open>\<open>ROLLBACK\<close> restores the tables; what the object store received stays.\<close>

definition rollback :: "world \<Rightarrow> world \<Rightarrow> world" where
  "rollback w0 w = w0\<lparr>s3_objects := s3_objects w\<rparr>"

text \<open>
  \<open>uploadDocument\<close>. \<open>documentId\<close> is the UUID drawn for the row. Every exception inside the
  method is caught and answered with \<open>SERVER_ERROR\<close> after \<open>ROLLBACK\<close>.
\<close>

definition uploadDocument ::
  "s3_upload_env \<Rightarrow> string \<Rightarrow> string \<Rightarrow> multer_file \<Rightarrow> UploadDocumentRequest \<Rightarrow> world
     \<Rightarrow> Document ApiResponse \<times> world" where
  "uploadDocument e documentId uid file metadata w =
     (if size_file file > MAX_FILE_SIZE
      then (Failure FILE_TOO_LARGE
              (''File size ('' @ formatFileSize (size_file file) @ '') exceeds 5 MB limit''), w)
      else if mimetype file \<notin> set allowedTypes
      then (Failure UNSUPPORTED_FILE_TYPE ''Only JPEG, PNG, GIF, and PDF files are supported'', w)
      else
        (case checkStorageQuota uid (size_file file) w of
           (False, message) \<Rightarrow>
             (Failure STORAGE_QUOTA_EXCEEDED
                (case or_null message of Some m \<Rightarrow> m | None \<Rightarrow> ''Storage quota exceeded''), w)
         | (True, message) \<Rightarrow>
             (case s3_uploadDocument e (buffer file) (mimetype file) uid w of
                Inl err \<Rightarrow> (Failure SERVER_ERROR ''Failed to upload document'', w)
              | Inr (uploadResult, w1) \<Rightarrow>
                  (let row = \<lparr>d_id = documentId, d_user_id = uid,
                              d_type = (case req_type metadata of Some t \<Rightarrow> t | None \<Rightarrow> OTHER),
                              d_title = Some (case or_null (req_title metadata) of
                                                Some t \<Rightarrow> t | None \<Rightarrow> ''Untitled Document''),
                              d_description = or_null (req_description metadata),
                              d_notes = None,
                              d_file_url = fileUrl uploadResult,
                              d_thumbnail_url = or_null (thumbnailUrl uploadResult),
                              d_file_size = fileSize uploadResult,
                              d_mime_type = mimetype file,
                              d_status = PENDING_PROCESSING,
                              d_ocr_status = None\<rparr>
                   in case insert_document row w1 of
                        None \<Rightarrow> (Failure SERVER_ERROR ''Failed to upload document'', rollback w w1)
                      | Some w2 \<Rightarrow>
                          (case add_storage_used (fileSize uploadResult) uid w2 of
                             None \<Rightarrow>
                               (Failure SERVER_ERROR ''Failed to upload document'', rollback w w1)
                           | Some w3 \<Rightarrow> (Success (mapDbDocumentToDocument row None), w3))))))"

definition getDocument :: "string \<Rightarrow> string \<Rightarrow> world \<Rightarrow> Document ApiResponse" where
  "getDocument did uid w =
     (case select_document did uid w of
        None \<Rightarrow> Failure NOT_FOUND ''Document not found''
      | Some row \<Rightarrow> Success (mapDbDocumentToDocument row (select_analysis did w)))"

text \<open>
  The dynamic \<open>UPDATE\<close> of \<open>updateDocument\<close>: one assignment per field that is not
  \<open>undefined\<close>, in the order of the source.
\<close>

definition build_updates :: "UpdateDocumentRequest \<Rightarrow> (doc_row \<Rightarrow> doc_row) list" where
  "build_updates updateData =
     (case upd_title updateData of None \<Rightarrow> [] | Some v \<Rightarrow> [\<lambda>r. r\<lparr>d_title := Some v\<rparr>])
     @ (case upd_description updateData of
          None \<Rightarrow> [] | Some v \<Rightarrow> [\<lambda>r. r\<lparr>d_description := Some v\<rparr>])
     @ (case upd_notes updateData of None \<Rightarrow> [] | Some v \<Rightarrow> [\<lambda>r. r\<lparr>d_notes := Some v\<rparr>])
     @ (case upd_type updateData of None \<Rightarrow> [] | Some v \<Rightarrow> [\<lambda>r. r\<lparr>d_type := v\<rparr>])"

definition updateDocument ::
  "string \<Rightarrow> string \<Rightarrow> UpdateDocumentRequest \<Rightarrow> world \<Rightarrow> Document ApiResponse \<times> world" where
  "updateDocument did uid updateData w =
     (case select_document did uid w of
        None \<Rightarrow> (Failure NOT_FOUND ''Document not found'', w)
      | Some checkRow \<Rightarrow>
          (let updates = build_updates updateData
           in if length updates = 0 then (getDocument did uid w, w)
              else
                (let w' = w\<lparr>documents :=
                            map (\<lambda>r. if d_id r = did \<and> d_user_id r = uid
                                      then fold (\<lambda>f x. f x) updates r else r) (documents w)\<rparr>
                 in (getDocument did uid w', w'))))"

text \<open>
  What happens outside during one \<open>deleteDocument\<close>: whether the two \<open>DeleteObject\<close>
  requests succeed.
\<close>

record s3_delete_env =
  delete_ok :: bool
  thumb_delete_ok :: bool

definition deleteDocument ::
  "s3_delete_env \<Rightarrow> string \<Rightarrow> string \<Rightarrow> world \<Rightarrow> unit ApiResponse \<times> world" where
  "deleteDocument e did uid w =
     (case select_document did uid w of
        None \<Rightarrow> (Failure NOT_FOUND ''Document not found'', w)
      | Some document \<Rightarrow>
          (case s3_deleteDocument (delete_ok e) (d_file_url document) w of
             None \<Rightarrow> (Failure SERVER_ERROR ''Failed to delete document'', w)
           | Some w1 \<Rightarrow>
               (let w2 = (case or_null (d_thumbnail_url document) of
                            Some t \<Rightarrow> s3_deleteThumbnail (thumb_delete_ok e) t w1
                          | None \<Rightarrow> w1);
                    w3 = delete_document_row did w2;
                    w4 = sub_storage_used (d_file_size document) uid w3
                in (Success (), w4))))"

text \<open>The status code that the \<open>DELETE /api/documents/:id\<close> route answers with.\<close>

definition delete_route_status :: "unit ApiResponse \<Rightarrow> nat" where
  "delete_route_status res =
     (case res of
        Success u \<Rightarrow> 200
      | Failure code msg \<Rightarrow> if code = NOT_FOUND then 404 else 500)"

text \<open>
  Sequences of completed uploads and deletions, each with its own answers from outside.
\<close>

datatype operation =
  Upload s3_upload_env string string multer_file UploadDocumentRequest
  | Delete s3_delete_env string string

fun step :: "operation \<Rightarrow> world \<Rightarrow> world" where
  "step (Upload e documentId uid file metadata) w = snd (uploadDocument e documentId uid file metadata w)"
| "step (Delete e did uid) w = snd (deleteDocument e did uid w)"

definition run :: "operation list \<Rightarrow> world \<Rightarrow> world" where
  "run ops w = fold step ops w"

text \<open>The user's counter, and the sum of the sizes of the user's documents.\<close>

definition storageUsed :: "string \<Rightarrow> world \<Rightarrow> int option" where
  "storageUsed uid w = map_option u_storage_used (select_user uid w)"

definition documents_of :: "string \<Rightarrow> world \<Rightarrow> doc_row list" where
  "documents_of uid w = filter (\<lambda>r. d_user_id r = uid) (documents w)"

definition total_file_size :: "string \<Rightarrow> world \<Rightarrow> int" where
  "total_file_size uid w = sum_list (map d_file_size (documents_of uid w))"

subsection \<open>\<open>OcrService\<close>\<close>

text \<open>One entry of \<open>textAnnotations\<close> in the answer of the vision engine.\<close>

record annotation =
  ann_description :: "string option"
  ann_locale :: "string option"
  ann_confidence :: "real option"
  ann_vertices :: "(int \<times> int) list option"

record vision_error =
  verr_code :: "string option"
  verr_message :: "string option"

record vision_result =
  res_error :: "vision_error option"
  textAnnotations :: "annotation list option"

text \<open>An exception object as the \<open>catch\<close> block of \<open>extractText\<close> inspects it.\<close>

record thrown_error =
  thrown_message :: "string option"
  thrown_code :: "int option"

text \<open>
  What \<open>Promise.race\<close> settles with: the engine answers, the engine call rejects, or the
  ten-second timer rejects first with \<open>Error('OCR_TIMEOUT')\<close>.
\<close>

datatype vision_outcome = Responds vision_result | Rejects thrown_error | TimesOut

record OcrResult =
  ocr_text :: string
  ocr_confidence :: real
  ocr_language :: string
  ocr_boundingBoxes :: "(string \<times> (int \<times> int) list) list"

record OcrError =
  oerr_code :: string
  oerr_message :: string
  oerr_retryable :: bool

definition isSupportedImageType :: "string \<Rightarrow> bool" where
  "isSupportedImageType m =
     (m \<in> set [''image/jpeg'', ''image/jpg'', ''image/png'', ''image/gif'', ''image/webp'',
               ''image/bmp'', ''image/tiff''])"

definition isRetryableError :: "vision_error \<Rightarrow> bool" where
  "isRetryableError err =
     (case verr_code err of
        None \<Rightarrow> False
      | Some c \<Rightarrow> c \<in> set [''UNAVAILABLE'', ''DEADLINE_EXCEEDED'', ''RESOURCE_EXHAUSTED''])"

definition calculateAverageConfidence :: "annotation list \<Rightarrow> real" where
  "calculateAverageConfidence annotations =
     (if length annotations = 0 then 100
      else
        (let confidences =
               filter (\<lambda>c. c > 0)
                 (map (\<lambda>a. case ann_confidence a of None \<Rightarrow> 0 | Some c \<Rightarrow> c) annotations)
         in if length confidences = 0 then 100
            else (sum_list confidences / real (length confidences)) * 100))"

text \<open>\<open>s.includes(sub)\<close>.\<close>

fun includes_str :: "string \<Rightarrow> string \<Rightarrow> bool" where
  "includes_str [] sub = (sub = [])"
| "includes_str (c # cs) sub = (take (length sub) (c # cs) = sub \<or> includes_str cs sub)"

text \<open>The \<open>catch\<close> block of \<open>extractText\<close>.\<close>

definition ocr_catch :: "thrown_error \<Rightarrow> OcrError" where
  "ocr_catch err =
     (if thrown_message err = Some ''OCR_TIMEOUT''
      then \<lparr>oerr_code = ''TIMEOUT'', oerr_message = ''OCR processing timed out after 10 seconds'',
            oerr_retryable = True\<rparr>
      else if thrown_code err = Some 8
              \<or> (case thrown_message err of None \<Rightarrow> False | Some m \<Rightarrow> includes_str m ''quota'')
      then \<lparr>oerr_code = ''QUOTA_EXCEEDED'', oerr_message = ''Google Vision API quota exceeded'',
            oerr_retryable = False\<rparr>
      else \<lparr>oerr_code = ''INTERNAL_ERROR'',
            oerr_message = (case or_null (thrown_message err) of
                              Some m \<Rightarrow> m | None \<Rightarrow> ''Failed to extract text from image''),
            oerr_retryable = True\<rparr>)"

text \<open>
  \<open>extractText\<close>: \<open>Inr\<close> is \<open>{success: true, data}\<close>, \<open>Inl\<close> is \<open>{success: false, error}\<close>.
  The engine is only asked for a supported type.
\<close>

definition extractText :: "vision_outcome \<Rightarrow> string \<Rightarrow> string \<Rightarrow> OcrError + OcrResult" where
  "extractText engine buf mimeType =
     (if \<not> isSupportedImageType mimeType
      then Inl \<lparr>oerr_code = ''UNSUPPORTED_TYPE'',
                oerr_message = ''OCR not supported for '' @ mimeType @ ''. Only images are supported.'',
                oerr_retryable = False\<rparr>
      else
        (case engine of
           TimesOut \<Rightarrow> Inl (ocr_catch \<lparr>thrown_message = Some ''OCR_TIMEOUT'', thrown_code = None\<rparr>)
         | Rejects err \<Rightarrow> Inl (ocr_catch err)
         | Responds result \<Rightarrow>
             (case res_error result of
                Some err \<Rightarrow>
                  Inl \<lparr>oerr_code = ''API_ERROR'',
                       oerr_message = (case or_null (verr_message err) of
                                         Some m \<Rightarrow> m | None \<Rightarrow> ''Vision API returned an error''),
                       oerr_retryable = isRetryableError err\<rparr>
              | None \<Rightarrow>
                  (let anns = (case textAnnotations result of None \<Rightarrow> [] | Some xs \<Rightarrow> xs)
                   in if length anns = 0
                      then Inr \<lparr>ocr_text = [], ocr_confidence = 0, ocr_language = ''en'',
                                ocr_boundingBoxes = []\<rparr>
                      else
                        (let fullTextAnnotation = hd anns;
                             extractedText = (case ann_description fullTextAnnotation of
                                                None \<Rightarrow> [] | Some d \<Rightarrow> d);
                             confidence = calculateAverageConfidence (tl anns);
                             detectedLanguage = (case or_null (ann_locale fullTextAnnotation) of
                                                   None \<Rightarrow> ''en'' | Some l \<Rightarrow> l);
                             boundingBoxes =
                               map (\<lambda>a. (case ann_description a of None \<Rightarrow> [] | Some d \<Rightarrow> d,
                                          case ann_vertices a of None \<Rightarrow> [] | Some v \<Rightarrow> v))
                                 (tl anns)
                         in Inr \<lparr>ocr_text = extractedText, ocr_confidence = confidence,
                                 ocr_language = detectedLanguage,
                                 ocr_boundingBoxes = boundingBoxes\<rparr>)))))"

subsection \<open>The two enrichment paths of \<open>DocumentService\<close>\<close>

datatype exn = UNIQUE_VIOLATION | FOREIGN_KEY_VIOLATION | TYPE_ERROR | API_REJECTED

datatype 'a outcome = Returned 'a | Raised exn

definition set_ocr_status :: "OcrStatus \<Rightarrow> string \<Rightarrow> world \<Rightarrow> world" where
  "set_ocr_status st did w =
     w\<lparr>documents := map (\<lambda>r. if d_id r = did then r\<lparr>d_ocr_status := Some st\<rparr> else r) (documents w)\<rparr>"

definition set_status :: "DocumentStatus \<Rightarrow> string \<Rightarrow> world \<Rightarrow> world" where
  "set_status st did w =
     w\<lparr>documents := map (\<lambda>r. if d_id r = did then r\<lparr>d_status := st\<rparr> else r) (documents w)\<rparr>"

text \<open>
  \<open>INSERT INTO document_ai_analysis\<close>: \<open>document_id\<close> is \<open>UNIQUE\<close> and references
  \<open>documents(id)\<close>; a violation raises.
\<close>

definition insert_analysis :: "analysis_row \<Rightarrow> world \<Rightarrow> exn + world" where
  "insert_analysis r w =
     (if a_document_id r \<in> set (map a_document_id (document_ai_analysis w)) then Inl UNIQUE_VIOLATION
      else if a_document_id r \<notin> set (map d_id (documents w)) then Inl FOREIGN_KEY_VIOLATION
      else Inr (w\<lparr>document_ai_analysis := document_ai_analysis w @ [r]\<rparr>))"

text \<open>\<open>UPDATE document_ai_analysis SET extracted_text = $1 WHERE document_id = $2\<close>.\<close>

definition update_extracted_text :: "json \<Rightarrow> string \<Rightarrow> world \<Rightarrow> world" where
  "update_extracted_text v did w =
     w\<lparr>document_ai_analysis :=
         map (\<lambda>r. if a_document_id r = did then r\<lparr>a_extracted_text := Some v\<rparr> else r)
           (document_ai_analysis w)\<rparr>"

text \<open>
  \<open>processDocumentWithOCR\<close>. The write of the text is a select followed by an update or
  an insert. An exception marks the document as failed and is raised again.
\<close>

definition processDocumentWithOCR ::
  "vision_outcome \<Rightarrow> string \<Rightarrow> string \<Rightarrow> string \<Rightarrow> world \<Rightarrow> unit outcome \<times> world" where
  "processDocumentWithOCR engine documentId fileBuffer mimeType w =
     (let w1 = set_ocr_status OCR_PROCESSING documentId w
      in case extractText engine fileBuffer mimeType of
           Inl err \<Rightarrow> (Returned (), set_ocr_status OCR_FAILED documentId w1)
         | Inr ocrData \<Rightarrow>
             (case select_analysis documentId w1 of
                Some existing \<Rightarrow>
                  (Returned (),
                   set_ocr_status OCR_COMPLETED documentId
                     (update_extracted_text (JStr (ocr_text ocrData)) documentId w1))
              | None \<Rightarrow>
                  (case insert_analysis \<lparr>a_document_id = documentId,
                                          a_extracted_text = Some (JStr (ocr_text ocrData)),
                                          a_summary = None, a_insights = None\<rparr> w1 of
                     Inl x \<Rightarrow> (Raised x, set_ocr_status OCR_FAILED documentId w1)
                   | Inr w2 \<Rightarrow> (Returned (), set_ocr_status OCR_COMPLETED documentId w2))))"

text \<open>What the language model answers: the call rejects, or a message with its content blocks.\<close>

datatype content_block = TextBlock string | OtherBlock

datatype llm_outcome = LlmRejects | LlmReplies "content_block list"

text \<open>
  Reading a property of a parsed value: of \<open>null\<close> it raises a \<open>TypeError\<close>; of an object it is
  the value of the last entry with that key; of anything else (and of a missing key) it is
  \<open>undefined\<close> (\<open>None\<close>).
\<close>

fun get_prop :: "json \<Rightarrow> string \<Rightarrow> exn + json option" where
  "get_prop JNull k = Inl TYPE_ERROR"
| "get_prop (JObj kvs) k = Inr (map_of (rev kvs) k)"
| "get_prop (JBool b) k = Inr None"
| "get_prop (JNum x) k = Inr None"
| "get_prop (JStr s) k = Inr None"
| "get_prop (JArr xs) k = Inr None"

text \<open>
  The inner \<open>try { JSON.parse } catch\<close> of \<open>processDocumentWithAI\<close>. \<open>JSON.parse\<close> is the
  parameter \<open>parse\<close>: \<open>None\<close> where it throws a \<open>SyntaxError\<close>.
\<close>

definition parse_analysis :: "(string \<Rightarrow> json option) \<Rightarrow> string \<Rightarrow> json" where
  "parse_analysis parse responseText =
     (case parse responseText of
        Some j \<Rightarrow> j
      | None \<Rightarrow> JObj [(''extractedText'', JStr []), (''summary'', JStr responseText),
                      (''insights'', JArr [])])"

text \<open>\<open>v || null\<close> and \<open>v || []\<close> on a property that may be \<open>undefined\<close>.\<close>

definition json_or_null :: "json option \<Rightarrow> json option" where
  "json_or_null v = (if truthy_opt v then v else None)"

definition json_or_empty :: "json option \<Rightarrow> json" where
  "json_or_empty v = (if truthy_opt v then the v else JArr [])"

text \<open>The row that \<open>processDocumentWithAI\<close> inserts for an analysis object.\<close>

definition analysis_params :: "string \<Rightarrow> json \<Rightarrow> exn + analysis_row" where
  "analysis_params documentId analysis =
     (case get_prop analysis ''extractedText'' of
        Inl x \<Rightarrow> Inl x
      | Inr t \<Rightarrow>
          (case get_prop analysis ''summary'' of
             Inl x \<Rightarrow> Inl x
           | Inr s \<Rightarrow>
               (case get_prop analysis ''insights'' of
                  Inl x \<Rightarrow> Inl x
                | Inr i \<Rightarrow>
                    Inr \<lparr>a_document_id = documentId, a_extracted_text = json_or_null t,
                         a_summary = json_or_null s, a_insights = Some (json_or_empty i)\<rparr>)))"

text \<open>
  \<open>processDocumentWithAI\<close>. The write of the analysis is a plain \<open>INSERT\<close>. An exception
  marks the document as failed and is raised again. Each statement sent through the pool
  is taken as applied on its own: \<open>pool.query('BEGIN')\<close> binds no later statement to its
  connection, and what a connection left inside an open transaction does to the
  \<open>UPDATE\<close> of the \<open>catch\<close> block is not modelled. Nor is the conversion of the
  parameters to the column types (\<open>TEXT\<close>, \<open>TEXT[]\<close>): the row holds the values as passed.
\<close>

definition processDocumentWithAI ::
  "(string \<Rightarrow> json option) \<Rightarrow> llm_outcome \<Rightarrow> string \<Rightarrow> string \<Rightarrow> string \<Rightarrow> world
     \<Rightarrow> unit outcome \<times> world" where
  "processDocumentWithAI parse llm documentId fileBuffer mimeType w =
     (case llm of
        LlmRejects \<Rightarrow> (Raised API_REJECTED, set_status FAILED documentId w)
      | LlmReplies content \<Rightarrow>
          (case content of
             [] \<Rightarrow> (Raised TYPE_ERROR, set_status FAILED documentId w)
           | block # rest \<Rightarrow>
               (let responseText = (case block of TextBlock t \<Rightarrow> t | OtherBlock \<Rightarrow> []);
                    analysis = parse_analysis parse responseText
                in case analysis_params documentId analysis of
                     Inl x \<Rightarrow> (Raised x, set_status FAILED documentId w)
                   | Inr row \<Rightarrow>
                       (case insert_analysis row w of
                          Inl x \<Rightarrow> (Raised x, set_status FAILED documentId w)
                        | Inr w1 \<Rightarrow> (Returned (), set_status PROCESSED documentId w1)))))"

subsection \<open>\<open>AuthService\<close>\<close>

record RegisterData =
  reg_phoneNumber :: string
  reg_password :: string
  reg_fullName :: string

record User =
  user_id :: string
  user_email :: string
  user_phoneNumber :: string
  user_fullName :: string
  user_country :: string

text \<open>The functions of bcrypt and jsonwebtoken, and the UUID drawn by \<open>register\<close>.\<close>

record auth_env =
  new_uuid :: string
  bcrypt_hash :: "string \<Rightarrow> string"
  bcrypt_compare :: "string \<Rightarrow> string \<Rightarrow> bool"
  jwt_sign :: "string \<Rightarrow> string"

definition is_digit :: "char \<Rightarrow> bool" where
  "is_digit c = (48 \<le> (of_char c :: nat) \<and> (of_char c :: nat) \<le> 57)"

definition is_space :: "char \<Rightarrow> bool" where
  "is_space c = ((of_char c :: nat) \<in> set [9, 10, 11, 12, 13, 32, 160])"

text \<open>\<open>/^\+977\d{10}$/\<close>.\<close>

definition matches_phone_pattern :: "string \<Rightarrow> bool" where
  "matches_phone_pattern s = (length s = 14 \<and> take 4 s = ''+977'' \<and> list_all is_digit (drop 4 s))"

definition validatePassword :: "string \<Rightarrow> bool \<times> string option" where
  "validatePassword password =
     (if length password < 8 then (False, Some ''Password must be at least 8 characters long'')
      else if \<not> list_ex is_digit password
      then (False, Some ''Password must contain at least one number'')
      else (True, None))"

definition validatePhoneNumber :: "string \<Rightarrow> bool \<times> string option" where
  "validatePhoneNumber phoneNumber =
     (let cleanPhone = filter (\<lambda>c. \<not> (is_space c \<or> c = CHR ''-'')) phoneNumber
      in if \<not> matches_phone_pattern cleanPhone
         then (False, Some ''Phone number must be in format +977XXXXXXXXXX (Nepal)'')
         else (True, None))"

definition mapDbUserToUser :: "user_row \<Rightarrow> User" where
  "mapDbUserToUser dbUser =
     \<lparr>user_id = u_id dbUser, user_email = [], user_phoneNumber = u_phone_number dbUser,
      user_fullName = u_full_name dbUser,
      user_country = (if u_country dbUser = [] then ''Nepal'' else u_country dbUser)\<rparr>"

definition generateToken :: "auth_env \<Rightarrow> string \<Rightarrow> string" where
  "generateToken e uid = jwt_sign e uid"

text \<open>
  \<open>register\<close>: the password is validated first, then the phone number. An exception inside
  the transaction is raised again after \<open>ROLLBACK\<close>. The new row takes the defaults of the
  schema for \<open>storage_used\<close> and \<open>storage_quota\<close>.
\<close>

definition register ::
  "auth_env \<Rightarrow> RegisterData \<Rightarrow> world \<Rightarrow> (User \<times> string) ApiResponse outcome \<times> world" where
  "register e data w =
     (case validatePassword (reg_password data) of
        (False, msg) \<Rightarrow> (Returned (Failure WEAK_PASSWORD (case msg of Some m \<Rightarrow> m | None \<Rightarrow> [])), w)
      | (True, msg) \<Rightarrow>
          (case validatePhoneNumber (reg_phoneNumber data) of
             (False, msg) \<Rightarrow>
               (Returned (Failure VALIDATION_ERROR (case msg of Some m \<Rightarrow> m | None \<Rightarrow> [])), w)
           | (True, msg) \<Rightarrow>
               if list_ex (\<lambda>r. u_phone_number r = reg_phoneNumber data) (users w)
               then (Returned (Failure DUPLICATE_PHONE ''Phone number already registered''), w)
               else
                 (let passwordHash = bcrypt_hash e (reg_password data);
                      userId = new_uuid e;
                      row = \<lparr>u_id = userId, u_phone_number = reg_phoneNumber data,
                             u_password_hash = passwordHash, u_full_name = reg_fullName data,
                             u_country = ''Nepal'', u_storage_used = 0,
                             u_storage_quota = DEFAULT_STORAGE_QUOTA\<rparr>
                  in if userId \<in> set (map u_id (users w)) then (Raised UNIQUE_VIOLATION, w)
                     else if userId \<in> set (user_profiles w) then (Raised UNIQUE_VIOLATION, w)
                     else (Returned (Success (mapDbUserToUser row, generateToken e userId)),
                           w\<lparr>users := users w @ [row],
                             user_profiles := user_profiles w @ [userId]\<rparr>))))"

definition login :: "auth_env \<Rightarrow> string \<Rightarrow> string \<Rightarrow> world \<Rightarrow> (User \<times> string) ApiResponse" where
  "login e phoneNumber password w =
     (case validatePhoneNumber phoneNumber of
        (False, msg) \<Rightarrow> Failure INVALID_CREDENTIALS ''Invalid phone number or password''
      | (True, msg) \<Rightarrow>
          (case find (\<lambda>r. u_phone_number r = phoneNumber) (users w) of
             None \<Rightarrow> Failure INVALID_CREDENTIALS ''Invalid phone number or password''
           | Some dbUser \<Rightarrow>
               if \<not> bcrypt_compare e password (u_password_hash dbUser)
               then Failure INVALID_CREDENTIALS ''Invalid phone number or password''
               else (let user = mapDbUserToUser dbUser
                     in Success (user, generateToken e (user_id user)))))"

subsection \<open>The authentication routes (auth.routes.ts)\<close>

text \<open>
  The JSON body of a request; a field may be missing. Field values that are not strings
  are left out.
\<close>

record auth_body =
  body_phoneNumber :: "string option"
  body_password :: "string option"
  body_fullName :: "string option"

text \<open>
  One entry of \<open>errors.array()\<close>: the field and the message of a failed validator (the
  other properties of the entry are left out).
\<close>

record validation_error =
  err_path :: string
  err_msg :: string

text \<open>What a handler sends: the status, the \<open>ApiResponse\<close>, and the \<open>details\<close> array.\<close>

datatype http_response =
  Response (status_code: nat) (response_body: "(User \<times> string) ApiResponse")
    (response_details: "validation_error list")

text \<open>A validation chain sees a missing value as the empty string.\<close>

definition to_str :: "string option \<Rightarrow> string" where
  "to_str v = (case v of None \<Rightarrow> [] | Some s \<Rightarrow> s)"

text \<open>
  The sanitizer \<open>.trim()\<close>: whitespace removed at both ends. The sanitized value replaces
  the field of \<open>req.body\<close>, so it is what the later validators and the handler see.
\<close>

definition trim :: "string \<Rightarrow> string" where
  "trim s = rev (dropWhile is_space (rev (dropWhile is_space s)))"

text \<open>\<open>body('phoneNumber').trim().matches(/^\+977\d{10}$/)\<close>.\<close>

definition phoneValidation :: "auth_body \<Rightarrow> validation_error list" where
  "phoneValidation b =
     (if matches_phone_pattern (trim (to_str (body_phoneNumber b))) then []
      else [\<lparr>err_path = ''phoneNumber'',
             err_msg = ''Phone number must be in format +977XXXXXXXXXX''\<rparr>])"

text \<open>\<open>body('password').isLength({ min: 8 }).matches(/\d/)\<close>: every failed validator reports.\<close>

definition passwordValidation :: "auth_body \<Rightarrow> validation_error list" where
  "passwordValidation b =
     (if length (to_str (body_password b)) < 8
      then [\<lparr>err_path = ''password'', err_msg = ''Password must be at least 8 characters''\<rparr>]
      else [])
     @ (if \<not> list_ex is_digit (to_str (body_password b))
        then [\<lparr>err_path = ''password'',
               err_msg = ''Password must contain at least one number''\<rparr>]
        else [])"

text \<open>\<open>body('fullName').trim().notEmpty()\<close> and \<open>body('password').notEmpty()\<close>.\<close>

definition fullNameValidation :: "auth_body \<Rightarrow> validation_error list" where
  "fullNameValidation b =
     (if trim (to_str (body_fullName b)) = []
      then [\<lparr>err_path = ''fullName'', err_msg = ''Full name is required''\<rparr>]
      else [])"

definition loginPasswordValidation :: "auth_body \<Rightarrow> validation_error list" where
  "loginPasswordValidation b =
     (if to_str (body_password b) = []
      then [\<lparr>err_path = ''password'', err_msg = ''Password is required''\<rparr>]
      else [])"

text \<open>
  \<open>POST /register\<close>: all chains run, and any error is answered with 400 before
  \<open>authService.register\<close> is called. Otherwise the service gets the sanitized body; an
  exception it raises is answered with 500.
\<close>

definition register_route :: "auth_env \<Rightarrow> auth_body \<Rightarrow> world \<Rightarrow> http_response \<times> world" where
  "register_route e b w =
     (let errors = phoneValidation b @ passwordValidation b @ fullNameValidation b
      in if errors \<noteq> []
         then (Response 400 (Failure VALIDATION_ERROR ''Validation failed'') errors, w)
         else
           (case register e
                   \<lparr>reg_phoneNumber = trim (to_str (body_phoneNumber b)),
                    reg_password = to_str (body_password b),
                    reg_fullName = trim (to_str (body_fullName b))\<rparr> w of
              (Raised x, w') \<Rightarrow>
                (Response 500 (Failure SERVER_ERROR ''Internal server error'') [], w')
            | (Returned result, w') \<Rightarrow>
                (case result of
                   Failure code msg \<Rightarrow>
                     (Response (if code = DUPLICATE_PHONE then 409 else 400) result [], w')
                 | Success d \<Rightarrow> (Response 201 result [], w'))))"

text \<open>\<open>POST /login\<close>; \<open>authService.login\<close> writes nothing.\<close>

definition login_route :: "auth_env \<Rightarrow> auth_body \<Rightarrow> world \<Rightarrow> http_response" where
  "login_route e b w =
     (let errors = phoneValidation b @ loginPasswordValidation b
      in if errors \<noteq> []
         then Response 400 (Failure VALIDATION_ERROR ''Validation failed'') errors
         else
           (case login e (trim (to_str (body_phoneNumber b))) (to_str (body_password b)) w of
              Failure code msg \<Rightarrow> Response 401 (Failure code msg) []
            | Success d \<Rightarrow> Response 200 (Success d) []))"

subsection \<open>The storage accounting invariant\<close>

text \<open>
  For the user \<open>uid\<close>: document ids are unique (the primary key), the user's counter is the
  sum of the sizes of the user's documents, and none of these sizes is negative.
\<close>

definition storage_consistent :: "string \<Rightarrow> world \<Rightarrow> bool" where
  "storage_consistent uid w =
     (distinct (map d_id (documents w))
      \<and> storageUsed uid w = Some (total_file_size uid w)
      \<and> list_all (\<lambda>d. 0 \<le> d_file_size d) (documents_of uid w))"

subsection \<open>Concrete values used to instantiate the theorems\<close>

definition example_user :: user_row where
  "example_user =
     \<lparr>u_id = ''u1'', u_phone_number = ''+9779811111111'', u_password_hash = ''h1'',
      u_full_name = ''Test User'', u_country = ''Nepal'', u_storage_used = 0,
      u_storage_quota = DEFAULT_STORAGE_QUOTA\<rparr>"

definition example_world :: world where
  "example_world =
     \<lparr>users = [example_user], user_profiles = [''u1''], documents = [],
      document_ai_analysis = [], s3_objects = []\<rparr>"

definition example_file :: multer_file where
  "example_file = \<lparr>size_file = 3, mimetype = ''image/png'', buffer = ''abc''\<rparr>"

definition example_request :: UploadDocumentRequest where
  "example_request =
     \<lparr>req_type = Some LAB_REPORT, req_title = Some ''Report'', req_description = None,
      processWithAI = True, processWithOCR = True\<rparr>"

definition example_s3 :: s3_upload_env where
  "example_s3 = \<lparr>file_uuid = ''f1'', thumb_uuid = ''t1'', put_ok = True, thumb_ok = True\<rparr>"

definition example_delete :: s3_delete_env where
  "example_delete = \<lparr>delete_ok = True, thumb_delete_ok = True\<rparr>"

text \<open>The world after the example upload: one document \<open>d1\<close> of three bytes.\<close>

definition example_doc :: doc_row where
  "example_doc =
     \<lparr>d_id = ''d1'', d_user_id = ''u1'', d_type = LAB_REPORT, d_title = Some ''Report'',
      d_description = None, d_notes = None,
      d_file_url = ''https://swasthyasathi-documents.s3.ap-south-1.amazonaws.com/u1/f1.png'',
      d_thumbnail_url =
        Some ''https://swasthyasathi-documents.s3.ap-south-1.amazonaws.com/u1/thumbnails/t1_thumb.png'',
      d_file_size = 3, d_mime_type = ''image/png'', d_status = PENDING_PROCESSING,
      d_ocr_status = None\<rparr>"

definition example_world1 :: world where
  "example_world1 =
     \<lparr>users = [example_user\<lparr>u_storage_used := 3\<rparr>], user_profiles = [''u1''],
      documents = [example_doc], document_ai_analysis = [],
      s3_objects =
        [''https://swasthyasathi-documents.s3.ap-south-1.amazonaws.com/u1/f1.png'',
         ''https://swasthyasathi-documents.s3.ap-south-1.amazonaws.com/u1/thumbnails/t1_thumb.png'']\<rparr>"

definition example_auth :: auth_env where
  "example_auth =
     \<lparr>new_uuid = ''u2'', bcrypt_hash = (\<lambda>p. ''hash:'' @ p),
      bcrypt_compare = (\<lambda>p h. h = ''hash:'' @ p), jwt_sign = (\<lambda>u. ''token:'' @ u)\<rparr>"

text \<open>An answer of the vision engine with the full text and two words.\<close>

definition example_engine :: vision_outcome where
  "example_engine =
     Responds \<lparr>res_error = None,
       textAnnotations = Some
         [\<lparr>ann_description = Some ''Hb 13.5'', ann_locale = Some ''en'', ann_confidence = None,
           ann_vertices = None\<rparr>,
          \<lparr>ann_description = Some ''Hb'', ann_locale = None, ann_confidence = Some (9 / 10),
           ann_vertices = Some [(0, 0), (10, 0), (10, 5), (0, 5)]\<rparr>,
          \<lparr>ann_description = Some ''13.5'', ann_locale = None, ann_confidence = Some (7 / 10),
           ann_vertices = None\<rparr>]\<rparr>"

text \<open>The world after the OCR path has run on the example document.\<close>

definition example_world_ocr :: world where
  "example_world_ocr =
     example_world1
       \<lparr>documents := [example_doc\<lparr>d_ocr_status := Some OCR_COMPLETED\<rparr>],
        document_ai_analysis :=
          [\<lparr>a_document_id = ''d1'', a_extracted_text = Some (JStr ''Hb 13.5''),
            a_summary = None, a_insights = None\<rparr>]\<rparr>"

text \<open>A file of 60 MB.\<close>

definition example_file_60MB :: multer_file where
  "example_file_60MB =
     \<lparr>size_file = 62914560, mimetype = ''image/jpeg'', buffer = replicate 62914560 (CHR ''a'')\<rparr>"

text \<open>The example user one byte short of the quota.\<close>

definition example_world_nearly_full :: world where
  "example_world_nearly_full =
     example_world\<lparr>users := [example_user\<lparr>u_storage_used := 104857599\<rparr>]\<rparr>"

text \<open>The example user with the password \<open>Password123\<close>.\<close>

definition example_world_login :: world where
  "example_world_login =
     example_world\<lparr>users := [example_user\<lparr>u_password_hash := ''hash:Password123''\<rparr>]\<rparr>"

section \<open>Properties\<close>

subsection \<open>Evaluation rules\<close>

lemmas formatFileSize_eval =
  formatFileSize_def ilog1024.simps show_hundredths_def show_nat.simps digit_char_def sizes_def

lemmas example_defs =
  example_user_def example_world_def example_file_def example_request_def example_s3_def
  example_delete_def example_doc_def example_world1_def example_auth_def
  example_world_nearly_full_def example_world_login_def
  DEFAULT_STORAGE_QUOTA_def MAX_FILE_SIZE_def BIGINT_MAX_def allowedTypes_def

lemmas quota_eval =
  checkStorageQuota_def show_int_def to_number_def digit_value_def formatFileSize_text_def

lemmas s3_eval =
  s3_uploadDocument_def generateAndUploadThumbnail_def getFileExtension_def isImageType_def
  object_url_def BUCKET_NAME_def AWS_REGION_def s3_deleteDocument_def s3_deleteThumbnail_def

lemmas db_eval =
  select_user_def select_document_def select_analysis_def insert_document_def
  add_storage_used_def sub_storage_used_def delete_document_row_def rollback_def
  storageUsed_def documents_of_def total_file_size_def or_null_def

subsection \<open>What one upload and one deletion do to the tables\<close>

lemma s3_upload_tables:
  "s3_uploadDocument e b m v w = Inr (res, w1) \<Longrightarrow>
     users w1 = users w \<and> documents w1 = documents w
     \<and> document_ai_analysis w1 = document_ai_analysis w
     \<and> user_profiles w1 = user_profiles w \<and> fileSize res = int (length b)"
  by (auto simp: s3_uploadDocument_def Let_def generateAndUploadThumbnail_def
      split: if_splits prod.splits)

lemma upload_cases:
  "(users (snd (uploadDocument e did v f m w)) = users w
      \<and> documents (snd (uploadDocument e did v f m w)) = documents w) \<or>
   (\<exists>row. d_id row \<notin> set (map d_id (documents w)) \<and> d_user_id row = v
      \<and> d_file_size row = int (length (buffer f))
      \<and> documents (snd (uploadDocument e did v f m w)) = documents w @ [row]
      \<and> users (snd (uploadDocument e did v f m w)) =
          map (\<lambda>r. if u_id r = v
                   then r\<lparr>u_storage_used := u_storage_used r + int (length (buffer f))\<rparr>
                   else r) (users w))"
proof (cases "s3_uploadDocument e (buffer f) (mimetype f) v w")
  case (Inl a)
  then show ?thesis
    by (simp add: uploadDocument_def split: prod.splits bool.splits)
next
  case (Inr p)
  obtain res w1 where p: "p = (res, w1)" by (cases p)
  note t = s3_upload_tables[OF Inr[unfolded p]]
  show ?thesis
    using t Inr p
    by (simp add: uploadDocument_def Let_def rollback_def insert_document_def
        add_storage_used_def split: prod.splits bool.splits)
qed

lemma delete_cases:
  "(users (snd (deleteDocument e did v w)) = users w
      \<and> documents (snd (deleteDocument e did v w)) = documents w) \<or>
   (\<exists>r \<in> set (documents w). d_id r = did \<and> d_user_id r = v
      \<and> documents (snd (deleteDocument e did v w)) = filter (\<lambda>x. d_id x \<noteq> d_id r) (documents w)
      \<and> users (snd (deleteDocument e did v w)) =
          map (\<lambda>x. if u_id x = v
                   then x\<lparr>u_storage_used := max (u_storage_used x - d_file_size r) 0\<rparr>
                   else x) (users w))"
proof (cases "select_document did v w")
  case None
  then show ?thesis by (simp add: deleteDocument_def)
next
  case (Some r)
  then have r: "r \<in> set (documents w)" "d_id r = did" "d_user_id r = v"
    by (auto simp: select_document_def find_Some_iff)
  show ?thesis
  proof (cases "delete_ok e")
    case False
    then show ?thesis using Some by (simp add: deleteDocument_def s3_deleteDocument_def)
  next
    case True
    have "documents (snd (deleteDocument e did v w)) = filter (\<lambda>x. d_id x \<noteq> d_id r) (documents w)
      \<and> users (snd (deleteDocument e did v w)) =
          map (\<lambda>x. if u_id x = v
                   then x\<lparr>u_storage_used := max (u_storage_used x - d_file_size r) 0\<rparr>
                   else x) (users w)"
      using Some True r
      by (simp add: deleteDocument_def s3_deleteDocument_def s3_deleteThumbnail_def Let_def
            delete_document_row_def sub_storage_used_def split: option.splits)
    then show ?thesis using r by blast
  qed
qed

lemma find_user_map:
  assumes "\<And>x. u_id (g x) = u_id x"
  shows "find (\<lambda>r. u_id r = u) (map g xs) = map_option g (find (\<lambda>r. u_id r = u) xs)"
  by (induction xs) (simp_all add: assms)

lemma storageUsed_map:
  assumes "users w' = map g (users w)" and "\<And>x. u_id (g x) = u_id x"
  shows "storageUsed u w' = map_option (\<lambda>x. u_storage_used (g x)) (select_user u w)"
  unfolding storageUsed_def select_user_def assms(1)
  by (simp add: find_user_map[of g, OF assms(2)] option.map_comp comp_def)

lemma select_user_id: "select_user u w = Some r \<Longrightarrow> u_id r = u"
  by (auto simp: select_user_def find_Some_iff)

lemma find_snoc:
  "find P (xs @ [x]) = (case find P xs of Some y \<Rightarrow> Some y | None \<Rightarrow> if P x then Some x else None)"
  by (induction xs) simp_all

lemma sum_filter_remove:
  "distinct (map f xs) \<Longrightarrow> r \<in> set xs \<Longrightarrow>
   sum_list (map g (filter P (filter (\<lambda>x. f x \<noteq> f r) xs)))
     = sum_list (map g (filter P xs)) - (if P r then g r else (0::int))"
proof (induction xs)
  case Nil
  then show ?case by simp
next
  case (Cons a xs)
  show ?case
  proof (cases "a = r")
    case True
    have "filter (\<lambda>x. f x \<noteq> f r) xs = xs"
      using Cons.prems True by (auto simp: filter_id_conv image_iff)
    then show ?thesis using True by simp
  next
    case False
    then have "r \<in> set xs" "f a \<noteq> f r" using Cons.prems by (auto simp: image_iff)
    then show ?thesis using Cons by simp
  qed
qed

subsection \<open>The invariant is kept by every operation\<close>

lemma consistent_upload:
  assumes "storage_consistent u w"
  shows "storage_consistent u (snd (uploadDocument e did v f m w))"
proof -
  let ?w' = "snd (uploadDocument e did v f m w)"
  let ?n = "int (length (buffer f))"
  let ?g = "\<lambda>r. if u_id r = v then r\<lparr>u_storage_used := u_storage_used r + ?n\<rparr> else r"
  from upload_cases[of e did v f m w] consider
    (same) "users ?w' = users w" "documents ?w' = documents w"
    | (add) row where "d_id row \<notin> set (map d_id (documents w))" "d_user_id row = v"
       "d_file_size row = ?n" "documents ?w' = documents w @ [row]"
       "users ?w' = map ?g (users w)"
    by blast
  then show ?thesis
  proof cases
    case same
    then show ?thesis
      using assms
      by (simp add: storage_consistent_def total_file_size_def documents_of_def
          storageUsed_def select_user_def)
  next
    case add
    from assms obtain row0 where row0: "select_user u w = Some row0"
      "u_storage_used row0 = total_file_size u w"
      by (auto simp: storage_consistent_def storageUsed_def)
    have d: "distinct (map d_id (documents ?w'))"
      using assms add(1,4) by (simp add: storage_consistent_def)
    have tot: "total_file_size u ?w' = total_file_size u w + (if v = u then ?n else 0)"
      by (simp add: total_file_size_def documents_of_def add(2,3,4))
    have nn: "list_all (\<lambda>d. 0 \<le> d_file_size d) (documents_of u ?w')"
      using assms by (simp add: storage_consistent_def documents_of_def add(3,4))
    have "storageUsed u ?w' = map_option (\<lambda>x. u_storage_used (?g x)) (select_user u w)"
      by (rule storageUsed_map[OF add(5)]) simp
    then have us: "storageUsed u ?w' = Some (total_file_size u ?w')"
      using row0 select_user_id[OF row0(1)] by (simp add: tot)
    show ?thesis unfolding storage_consistent_def using d us nn by simp
  qed
qed

lemma consistent_delete:
  assumes "storage_consistent u w"
  shows "storage_consistent u (snd (deleteDocument e did v w))"
proof -
  let ?w' = "snd (deleteDocument e did v w)"
  from delete_cases[of e did v w] consider
    (same) "users ?w' = users w" "documents ?w' = documents w"
    | (del) r where "r \<in> set (documents w)" "d_id r = did" "d_user_id r = v"
       "documents ?w' = filter (\<lambda>x. d_id x \<noteq> d_id r) (documents w)"
       "users ?w' =
          map (\<lambda>x. if u_id x = v
                   then x\<lparr>u_storage_used := max (u_storage_used x - d_file_size r) 0\<rparr>
                   else x) (users w)"
    by blast
  then show ?thesis
  proof cases
    case same
    then show ?thesis
      using assms
      by (simp add: storage_consistent_def total_file_size_def documents_of_def
          storageUsed_def select_user_def)
  next
    case del
    let ?g = "\<lambda>x. if u_id x = v
                 then x\<lparr>u_storage_used := max (u_storage_used x - d_file_size r) 0\<rparr> else x"
    from assms obtain row0 where row0: "select_user u w = Some row0"
      "u_storage_used row0 = total_file_size u w"
      by (auto simp: storage_consistent_def storageUsed_def)
    have d: "distinct (map d_id (documents w))"
      using assms by (simp add: storage_consistent_def)
    have d': "distinct (map d_id (documents ?w'))"
      using d by (simp add: del(4) distinct_map_filter)
    have tot: "total_file_size u ?w' =
        total_file_size u w - (if d_user_id r = u then d_file_size r else 0)"
      unfolding total_file_size_def documents_of_def del(4)
      using sum_filter_remove[OF d del(1), of d_file_size "\<lambda>r. d_user_id r = u"] by simp
    have nn: "list_all (\<lambda>d. 0 \<le> d_file_size d) (documents_of u ?w')"
      using assms by (auto simp: storage_consistent_def documents_of_def del(4) list_all_iff)
    then have pos: "0 \<le> total_file_size u ?w'"
      unfolding total_file_size_def by (auto simp: list_all_iff intro!: sum_list_nonneg)
    have "storageUsed u ?w' = map_option (\<lambda>x. u_storage_used (?g x)) (select_user u w)"
      by (rule storageUsed_map[OF del(5)]) simp
    then have us: "storageUsed u ?w' = Some (total_file_size u ?w')"
      using row0 select_user_id[OF row0(1)] pos del(3) by (auto simp: tot)
    show ?thesis unfolding storage_consistent_def using d' us nn by simp
  qed
qed

lemma consistent_step: "storage_consistent u w \<Longrightarrow> storage_consistent u (step op w)"
  by (cases op) (simp_all add: consistent_upload consistent_delete)

lemma consistent_run: "storage_consistent u w \<Longrightarrow> storage_consistent u (run ops w)"
  unfolding run_def by (induction ops arbitrary: w) (simp_all add: consistent_step)

text \<open>
  C1. Start from a database with unique document ids in which the user's counter is 0 and
  the user has no documents. After every sequence of uploads and deletions (by any users,
  with any answers of the object store, each run to completion), the user's
  \<open>storage_used\<close> is the sum of \<open>file_size\<close> over the user's rows in \<open>documents\<close>.
\<close>

theorem C1_storage_used_is_sum:
  assumes "distinct (map d_id (documents w0))"
    and "storageUsed u w0 = Some 0"
    and "documents_of u w0 = []"
  shows "storageUsed u (run ops w0) = Some (total_file_size u (run ops w0))"
proof -
  have "storage_consistent u w0"
    using assms by (simp add: storage_consistent_def total_file_size_def)
  then have "storage_consistent u (run ops w0)" by (rule consistent_run)
  then show ?thesis by (simp add: storage_consistent_def)
qed

theorem C1_witness:
  "distinct (map d_id (documents example_world))
   \<and> storageUsed ''u1'' example_world = Some 0
   \<and> documents_of ''u1'' example_world = []
   \<and> storageUsed ''u1''
        (run [Upload example_s3 ''d1'' ''u1'' example_file example_request] example_world)
      = Some (total_file_size ''u1''
          (run [Upload example_s3 ''d1'' ''u1'' example_file example_request] example_world))"
  using C1_storage_used_is_sum [of example_world "''u1''"
      "[Upload example_s3 ''d1'' ''u1'' example_file example_request]"]
  by (simp add: example_defs db_eval)

text \<open>
  A user just created by \<open>register\<close>, in a database whose documents all belong to existing
  users (the foreign key), is such a start: counter 0 and no documents.
\<close>

lemma register_fresh_user:
  assumes "register e data w = (Returned (Success (user, token)), w')"
    and "set (map d_user_id (documents w)) \<subseteq> set (map u_id (users w))"
  shows "storageUsed (user_id user) w' = Some 0
    \<and> documents_of (user_id user) w' = []
    \<and> documents w' = documents w"
proof -
  let ?row = "\<lparr>u_id = new_uuid e, u_phone_number = reg_phoneNumber data,
               u_password_hash = bcrypt_hash e (reg_password data),
               u_full_name = reg_fullName data, u_country = ''Nepal'', u_storage_used = 0,
               u_storage_quota = DEFAULT_STORAGE_QUOTA\<rparr>"
  from assms(1) have fresh: "new_uuid e \<notin> set (map u_id (users w))"
    and w': "w' = w\<lparr>users := users w @ [?row], user_profiles := user_profiles w @ [new_uuid e]\<rparr>"
    and user: "user = mapDbUserToUser ?row"
    by (simp_all add: register_def Let_def split: prod.splits bool.splits if_splits)
  have uid: "user_id user = new_uuid e"
    by (simp add: user mapDbUserToUser_def)
  have "find (\<lambda>r. u_id r = new_uuid e) (users w) = None"
    using fresh by (force simp: find_None_iff image_iff)
  then have used: "storageUsed (user_id user) w' = Some 0"
    by (simp add: storageUsed_def select_user_def uid w' find_snoc)
  have "new_uuid e \<notin> set (map d_user_id (documents w))"
    using fresh assms(2) by blast
  then have none: "documents_of (user_id user) w' = []"
    by (force simp: documents_of_def uid w' filter_empty_conv image_iff)
  show ?thesis using used none by (simp add: w')
qed

text \<open>
  So the counter of a user created by \<open>register\<close> stays the sum of the user's document sizes.
\<close>

lemma registered_user_stays_consistent:
  assumes "register e data w = (Returned (Success (user, token)), w')"
    and "set (map d_user_id (documents w)) \<subseteq> set (map u_id (users w))"
    and "distinct (map d_id (documents w))"
  shows "storageUsed (user_id user) (run ops w')
           = Some (total_file_size (user_id user) (run ops w'))"
proof -
  from register_fresh_user[OF assms(1,2)]
  have "storage_consistent (user_id user) w'"
    using assms(3) by (simp add: storage_consistent_def total_file_size_def)
  then have "storage_consistent (user_id user) (run ops w')" by (rule consistent_run)
  then show ?thesis by (simp add: storage_consistent_def)
qed

subsection \<open>Upload against the quota\<close>

text \<open>
  C2 (the code against the claim). The example user has used 104857599 bytes of a quota of
  104857600 and uploads a PNG of 3 bytes: the sum exceeds the quota, and the file passes
  the size and MIME checks. \<open>checkStorageQuota\<close> forms the string \<open>1048575993\<close> and finds it
  not greater, as a string, than \<open>104857600\<close>. The upload is accepted: the object is stored,
  the row inserted, and the counter ends above the quota.
\<close>

theorem C2_quota_check_compares_strings:
  "storageUsed ''u1'' example_world_nearly_full = Some 104857599
   \<and> map_option u_storage_quota (select_user ''u1'' example_world_nearly_full) = Some 104857600
   \<and> 104857599 + size_file example_file > (104857600 :: int)
   \<and> size_file example_file \<le> MAX_FILE_SIZE
   \<and> mimetype example_file \<in> set allowedTypes
   \<and> checkStorageQuota ''u1'' (size_file example_file) example_world_nearly_full = (True, None)
   \<and> fst (uploadDocument example_s3 ''d1'' ''u1'' example_file example_request
             example_world_nearly_full)
       = Success (mapDbDocumentToDocument example_doc None)
   \<and> documents (snd (uploadDocument example_s3 ''d1'' ''u1'' example_file example_request
                        example_world_nearly_full))
       = [example_doc]
   \<and> s3_objects (snd (uploadDocument example_s3 ''d1'' ''u1'' example_file example_request
                         example_world_nearly_full))
       = s3_objects example_world1
   \<and> storageUsed ''u1''
        (snd (uploadDocument example_s3 ''d1'' ''u1'' example_file example_request
                example_world_nearly_full))
       = Some 104857602"
  by (simp add: uploadDocument_def quota_eval example_defs s3_eval db_eval formatFileSize_eval
      Let_def)

text \<open>
  The same comparison refuses a user far below the quota: with 3 bytes used, a file of 3
  bytes gives the string \<open>33\<close>, which is greater than \<open>104857600\<close>.
\<close>

lemma quota_check_refuses_below_quota:
  "checkStorageQuota ''u1'' 3 example_world1
     = (False, Some ''Storage quota exceeded. You have 100 MB remaining of your 100 MB quota.'')"
  by (simp add: quota_eval example_defs db_eval formatFileSize_eval)

subsection \<open>Deletion\<close>

text \<open>
  C3. For a document that the lookup scoped to the owner finds, and a successful removal of
  the stored object, \<open>deleteDocument\<close> succeeds, removes the rows with that id, and replaces
  the owner's counter \<open>used\<close> by \<open>max (used - file_size) 0\<close>. A second call with the same id
  answers \<open>NOT_FOUND\<close> (status 404) and changes nothing.
\<close>

theorem C3_delete_decrements_once:
  assumes "select_document did uid w = Some d" and "delete_ok e"
  shows "fst (deleteDocument e did uid w) = Success ()
    \<and> documents (snd (deleteDocument e did uid w)) = filter (\<lambda>r. d_id r \<noteq> did) (documents w)
    \<and> did \<notin> set (map d_id (documents (snd (deleteDocument e did uid w))))
    \<and> storageUsed uid (snd (deleteDocument e did uid w))
        = map_option (\<lambda>used. max (used - d_file_size d) 0) (storageUsed uid w)
    \<and> deleteDocument e' did uid (snd (deleteDocument e did uid w))
        = (Failure NOT_FOUND ''Document not found'', snd (deleteDocument e did uid w))
    \<and> delete_route_status (fst (deleteDocument e' did uid (snd (deleteDocument e did uid w)))) = 404"
proof -
  let ?g = "\<lambda>x. if u_id x = uid
               then x\<lparr>u_storage_used := max (u_storage_used x - d_file_size d) 0\<rparr> else x"
  let ?w' = "snd (deleteDocument e did uid w)"
  have res: "fst (deleteDocument e did uid w) = Success ()"
    and docs: "documents ?w' = filter (\<lambda>r. d_id r \<noteq> did) (documents w)"
    and us: "users ?w' = map ?g (users w)"
    using assms
    by (simp_all add: deleteDocument_def s3_deleteDocument_def s3_deleteThumbnail_def Let_def
        delete_document_row_def sub_storage_used_def split: option.splits)
  have gone: "did \<notin> set (map d_id (documents ?w'))"
    by (auto simp: docs)
  have "storageUsed uid ?w' = map_option (\<lambda>x. u_storage_used (?g x)) (select_user uid w)"
    by (rule storageUsed_map[OF us]) simp
  then have used: "storageUsed uid ?w'
      = map_option (\<lambda>used. max (used - d_file_size d) 0) (storageUsed uid w)"
    by (cases "select_user uid w")
       (auto simp: storageUsed_def dest: select_user_id)
  have "select_document did uid ?w' = None"
    using gone by (auto simp: select_document_def find_None_iff)
  then have again: "deleteDocument e' did uid ?w' = (Failure NOT_FOUND ''Document not found'', ?w')"
    by (simp add: deleteDocument_def)
  show ?thesis
    using res docs gone used again by (simp add: delete_route_status_def)
qed

theorem C3_witness:
  "select_document ''d1'' ''u1'' example_world1 = Some example_doc
   \<and> delete_ok example_delete
   \<and> fst (deleteDocument example_delete ''d1'' ''u1'' example_world1) = Success ()
   \<and> storageUsed ''u1'' example_world1 = Some 3
   \<and> storageUsed ''u1'' (snd (deleteDocument example_delete ''d1'' ''u1'' example_world1)) = Some 0
   \<and> deleteDocument example_delete ''d1'' ''u1''
        (snd (deleteDocument example_delete ''d1'' ''u1'' example_world1))
      = (Failure NOT_FOUND ''Document not found'',
         snd (deleteDocument example_delete ''d1'' ''u1'' example_world1))"
  using C3_delete_decrements_once [of "''d1''" "''u1''" example_world1 example_doc
      example_delete example_delete]
  by (simp add: example_defs db_eval)

subsection \<open>Text extraction\<close>

lemmas ocr_eval =
  extractText_def isSupportedImageType_def calculateAverageConfidence_def ocr_catch_def
  isRetryableError_def

lemmas enrich_eval =
  processDocumentWithOCR_def processDocumentWithAI_def set_ocr_status_def set_status_def
  insert_analysis_def update_extracted_text_def parse_analysis_def analysis_params_def
  json_or_null_def json_or_empty_def truthy_opt_def

text \<open>
  As the specification words it (confidence 100 for zero annotations) the property fails:
  for an empty list of annotations the early return of \<open>extractText\<close> reports confidence 0.
\<close>

theorem C4_counterexample:
  "extractText (Responds \<lparr>res_error = None, textAnnotations = Some []\<rparr>) ''abc'' ''image/png''
     = Inr \<lparr>ocr_text = [], ocr_confidence = 0, ocr_language = ''en'', ocr_boundingBoxes = []\<rparr>
   \<and> ocr_confidence
        (projr (extractText (Responds \<lparr>res_error = None, textAnnotations = Some []\<rparr>)
           ''abc'' ''image/png'')) \<noteq> 100"
  by (simp add: ocr_eval)

text \<open>
  C4 (amended). For a supported image type and an answer of the engine without error and
  without any text annotation, \<open>extractText\<close> is a success with the empty text and
  confidence 0 (language \<open>en\<close>, no bounding boxes), not an error.
\<close>

theorem C4_no_annotations_confidence_zero:
  assumes "isSupportedImageType mimeType"
    and "res_error result = None"
    and "textAnnotations result = None \<or> textAnnotations result = Some []"
  shows "extractText (Responds result) buf mimeType
           = Inr \<lparr>ocr_text = [], ocr_confidence = 0, ocr_language = ''en'',
                  ocr_boundingBoxes = []\<rparr>"
  using assms by (auto simp: extractText_def)

theorem C4_witness:
  "isSupportedImageType ''image/png''
   \<and> res_error \<lparr>res_error = None, textAnnotations = Some []\<rparr> = None
   \<and> extractText (Responds \<lparr>res_error = None, textAnnotations = Some []\<rparr>) ''abc'' ''image/png''
       = Inr \<lparr>ocr_text = [], ocr_confidence = 0, ocr_language = ''en'', ocr_boundingBoxes = []\<rparr>"
  using C4_no_annotations_confidence_zero
    [of "''image/png''" "\<lparr>res_error = None, textAnnotations = Some []\<rparr>" "''abc''"]
  by (simp add: isSupportedImageType_def)

text \<open>
  Confidence 100 is what \<open>calculateAverageConfidence\<close> gives when the engine returns the
  full-text annotation alone.
\<close>

lemma extractText_full_text_only:
  assumes "isSupportedImageType mimeType" and "res_error result = None"
    and "textAnnotations result = Some [a]"
  shows "\<exists>r. extractText (Responds result) buf mimeType = Inr r \<and> ocr_confidence r = 100"
  using assms by (simp add: extractText_def calculateAverageConfidence_def)

lemma example_ocr:
  "extractText example_engine ''abc'' ''image/png''
     = Inr \<lparr>ocr_text = ''Hb 13.5'', ocr_confidence = 80, ocr_language = ''en'',
            ocr_boundingBoxes = [(''Hb'', [(0, 0), (10, 0), (10, 5), (0, 5)]), (''13.5'', [])]\<rparr>"
  by (simp add: ocr_eval example_engine_def or_null_def)

subsection \<open>The two writers of \<open>document_ai_analysis\<close>\<close>

text \<open>
  C5 (the code against the claim). The OCR path runs on the example document and writes its
  row. The AI path then runs on the same document: its \<open>INSERT\<close> violates the unique
  \<open>document_id\<close>, the method raises, the document is marked \<open>failed\<close>, and the row still
  holds what the OCR path wrote.
\<close>

theorem C5_ai_insert_fails_after_ocr:
  "processDocumentWithOCR example_engine ''d1'' ''abc'' ''image/png'' example_world1
     = (Returned (), example_world_ocr)
   \<and> processDocumentWithAI (\<lambda>s. None) (LlmReplies [TextBlock ''Hemoglobin is normal.''])
        ''d1'' ''abc'' ''image/png'' example_world_ocr
     = (Raised UNIQUE_VIOLATION, set_status FAILED ''d1'' example_world_ocr)
   \<and> document_ai_analysis (set_status FAILED ''d1'' example_world_ocr)
     = [\<lparr>a_document_id = ''d1'', a_extracted_text = Some (JStr ''Hb 13.5''),
         a_summary = None, a_insights = None\<rparr>]
   \<and> map d_status (documents (set_status FAILED ''d1'' example_world_ocr)) = [FAILED]"
  by (simp add: enrich_eval example_ocr example_defs example_world_ocr_def db_eval)

text \<open>
  The OCR path writes whether or not a row exists; the AI path raises whenever one does.
\<close>

lemma ocr_write_is_upsert:
  assumes "extractText engine buf mimeType = Inr r" and "documentId \<in> set (map d_id (documents w))"
  shows "fst (processDocumentWithOCR engine documentId buf mimeType w) = Returned ()"
proof (cases "select_analysis documentId (set_ocr_status OCR_PROCESSING documentId w)")
  case None
  then have "documentId \<notin> set (map a_document_id (document_ai_analysis w))"
    by (auto simp: select_analysis_def set_ocr_status_def find_None_iff)
  moreover have "documentId \<in> set (map d_id (documents (set_ocr_status OCR_PROCESSING documentId w)))"
    using assms(2) by (auto simp: set_ocr_status_def image_iff)
  ultimately have "\<exists>w2. insert_analysis \<lparr>a_document_id = documentId,
        a_extracted_text = Some (JStr (ocr_text r)), a_summary = None, a_insights = None\<rparr>
        (set_ocr_status OCR_PROCESSING documentId w) = Inr w2"
    by (simp add: insert_analysis_def set_ocr_status_def)
  then show ?thesis
    using assms(1) None by (auto simp: processDocumentWithOCR_def Let_def)
next
  case (Some a)
  then show ?thesis
    using assms(1) by (simp add: processDocumentWithOCR_def Let_def)
qed

lemma analysis_params_id:
  "analysis_params documentId analysis = Inr row \<Longrightarrow> a_document_id row = documentId"
  by (auto simp: analysis_params_def split: sum.splits)

lemma ai_write_is_plain_insert:
  assumes "select_analysis documentId w = Some a"
  shows "\<exists>x. processDocumentWithAI parse llm documentId buf mimeType w
            = (Raised x, set_status FAILED documentId w)"
proof -
  have "documentId \<in> set (map a_document_id (document_ai_analysis w))"
    using assms by (auto simp: select_analysis_def find_Some_iff image_iff)
  then have "insert_analysis row w = Inl UNIQUE_VIOLATION" if "a_document_id row = documentId" for row
    using that by (simp add: insert_analysis_def)
  then show ?thesis
    by (auto simp: processDocumentWithAI_def Let_def dest!: analysis_params_id
        split: llm_outcome.splits list.splits sum.splits)
qed

subsection \<open>The 60 MB scenario\<close>

text \<open>
  As the specification words it (the first 60 MB upload succeeds) the scenario fails: the
  file is over the 5 MB ceiling, which is checked before the quota.
\<close>

theorem C6_counterexample:
  "size_file example_file_60MB = 60 * 1024 * 1024
   \<and> u_storage_quota example_user = 100 * 1024 * 1024
   \<and> storageUsed ''u1'' example_world = Some 0
   \<and> uploadDocument example_s3 ''d1'' ''u1'' example_file_60MB example_request example_world
     = (Failure FILE_TOO_LARGE ''File size (60 MB) exceeds 5 MB limit'', example_world)"
  by (simp add: uploadDocument_def example_file_60MB_def example_defs db_eval formatFileSize_eval)

text \<open>
  C6 (amended). Every \<open>uploadDocument\<close> call with a 60 MB file is rejected with
  \<open>FILE_TOO_LARGE\<close> and leaves the state as it was, so the counter of a user with 0 bytes
  used stays 0, for the first call and for the second. The quota check itself, for a user
  with 60 MB used of a 100 MB quota and a 60 MB file, denies with the message stating 40 MB
  remaining of the 100 MB quota.
\<close>

theorem C6_sixty_megabytes_rejected_by_size_limit:
  assumes "size_file file = 60 * 1024 * 1024"
    and "select_user uid w2 = Some row"
    and "u_storage_used row = 60 * 1024 * 1024"
    and "u_storage_quota row = 100 * 1024 * 1024"
  shows "uploadDocument e documentId uid file metadata w
           = (Failure FILE_TOO_LARGE ''File size (60 MB) exceeds 5 MB limit'', w)
    \<and> checkStorageQuota uid (size_file file) w2
           = (False, Some ''Storage quota exceeded. You have 40 MB remaining of your 100 MB quota.'')"
  using assms
  by (simp add: uploadDocument_def quota_eval MAX_FILE_SIZE_def formatFileSize_eval)

theorem C6_witness:
  "size_file example_file_60MB = 60 * 1024 * 1024
   \<and> select_user ''u1'' (example_world\<lparr>users := [example_user\<lparr>u_storage_used := 62914560\<rparr>]\<rparr>)
       = Some (example_user\<lparr>u_storage_used := 62914560\<rparr>)
   \<and> uploadDocument example_s3 ''d1'' ''u1'' example_file_60MB example_request example_world
       = (Failure FILE_TOO_LARGE ''File size (60 MB) exceeds 5 MB limit'', example_world)
   \<and> checkStorageQuota ''u1'' (size_file example_file_60MB)
        (example_world\<lparr>users := [example_user\<lparr>u_storage_used := 62914560\<rparr>]\<rparr>)
       = (False, Some ''Storage quota exceeded. You have 40 MB remaining of your 100 MB quota.'')"
  using C6_sixty_megabytes_rejected_by_size_limit
    [of example_file_60MB "''u1''"
        "example_world\<lparr>users := [example_user\<lparr>u_storage_used := 62914560\<rparr>]\<rparr>"
        "example_user\<lparr>u_storage_used := 62914560\<rparr>" example_s3 "''d1''" example_request
        example_world]
  by (simp add: example_file_60MB_def example_defs db_eval)

subsection \<open>Phone number validation in \<open>register\<close> and \<open>login\<close>\<close>

lemmas auth_eval =
  register_def login_def validatePassword_def validatePhoneNumber_def matches_phone_pattern_def
  is_digit_def is_space_def mapDbUserToUser_def generateToken_def

lemmas route_eval =
  register_route_def login_route_def phoneValidation_def passwordValidation_def
  fullNameValidation_def loginPasswordValidation_def to_str_def trim_def

text \<open>
  As the specification words it the property fails where the phone number carries
  whitespace around it. \<open> +9779811111111\<close>, with a leading blank, does not match the
  pattern, but the route trims the value before it matches it: the request reaches
  \<open>AuthService\<close> with the trimmed number, \<open>login\<close> compares the password and succeeds or
  fails with it, and \<open>register\<close> creates the user.
\<close>

theorem C7_counterexample:
  "\<not> matches_phone_pattern '' +9779811111111''
   \<and> login_route example_auth
        \<lparr>body_phoneNumber = Some '' +9779811111111'', body_password = Some ''Password123'',
         body_fullName = None\<rparr> example_world_login
      = Response 200
          (Success (\<lparr>user_id = ''u1'', user_email = [], user_phoneNumber = ''+9779811111111'',
                     user_fullName = ''Test User'', user_country = ''Nepal''\<rparr>, ''token:u1'')) []
   \<and> login_route example_auth
        \<lparr>body_phoneNumber = Some '' +9779811111111'', body_password = Some ''Password124'',
         body_fullName = None\<rparr> example_world_login
      = Response 401 (Failure INVALID_CREDENTIALS ''Invalid phone number or password'') []
   \<and> \<not> matches_phone_pattern '' +9779822222222''
   \<and> status_code (fst (register_route example_auth
        \<lparr>body_phoneNumber = Some '' +9779822222222'', body_password = Some ''Password123'',
         body_fullName = Some ''Second User''\<rparr> example_world)) = 201"
  by (simp add: route_eval auth_eval example_defs Let_def)

text \<open>
  C7 (amended). For every request whose phone number, after the removal of leading and
  trailing whitespace, does not match \<open>^\+977\d{10}$\<close>, both \<open>POST /register\<close> and
  \<open>POST /login\<close> answer 400 with \<open>VALIDATION_ERROR\<close> and the message \<open>Validation failed\<close>,
  without calling \<open>AuthService\<close>: no user is looked up, no password hashed or compared, the
  state is unchanged. Status, code and message are the same for every password; the
  \<open>details\<close> array lists the failed validators of all fields, the phone number's among
  them.
\<close>

theorem C7_unmatched_phone_rejected_by_route:
  assumes "\<not> matches_phone_pattern (trim (to_str (body_phoneNumber b)))"
  shows "register_route e b w
           = (Response 400 (Failure VALIDATION_ERROR ''Validation failed'')
                (phoneValidation b @ passwordValidation b @ fullNameValidation b), w)
    \<and> login_route e b w
           = Response 400 (Failure VALIDATION_ERROR ''Validation failed'')
               (phoneValidation b @ loginPasswordValidation b)
    \<and> phoneValidation b
           = [\<lparr>err_path = ''phoneNumber'',
                err_msg = ''Phone number must be in format +977XXXXXXXXXX''\<rparr>]
    \<and> status_code (fst (register_route e (b\<lparr>body_password := p\<rparr>) w)) = 400
    \<and> response_body (fst (register_route e (b\<lparr>body_password := p\<rparr>) w))
           = Failure VALIDATION_ERROR ''Validation failed''
    \<and> snd (register_route e (b\<lparr>body_password := p\<rparr>) w) = w
    \<and> status_code (login_route e (b\<lparr>body_password := p\<rparr>) w) = 400
    \<and> response_body (login_route e (b\<lparr>body_password := p\<rparr>) w)
           = Failure VALIDATION_ERROR ''Validation failed''"
  using assms
  by (simp add: register_route_def login_route_def phoneValidation_def Let_def)

theorem C7_witness:
  "\<not> matches_phone_pattern
        (trim (to_str (body_phoneNumber
           \<lparr>body_phoneNumber = Some ''12345'', body_password = Some ''short'',
            body_fullName = Some ''Test User''\<rparr>)))
   \<and> status_code (fst (register_route example_auth
        \<lparr>body_phoneNumber = Some ''12345'', body_password = Some ''short'',
         body_fullName = Some ''Test User''\<rparr> example_world)) = 400
   \<and> response_body (fst (register_route example_auth
        \<lparr>body_phoneNumber = Some ''12345'', body_password = Some ''Password123'',
         body_fullName = Some ''Test User''\<rparr> example_world))
       = Failure VALIDATION_ERROR ''Validation failed''
   \<and> login_route example_auth
        \<lparr>body_phoneNumber = Some ''12345'', body_password = Some ''short'',
         body_fullName = Some ''Test User''\<rparr> example_world
       = Response 400 (Failure VALIDATION_ERROR ''Validation failed'')
           [\<lparr>err_path = ''phoneNumber'',
             err_msg = ''Phone number must be in format +977XXXXXXXXXX''\<rparr>]"
  using C7_unmatched_phone_rejected_by_route
    [of "\<lparr>body_phoneNumber = Some ''12345'', body_password = Some ''short'',
          body_fullName = Some ''Test User''\<rparr>" example_auth example_world
        "Some ''Password123''"]
  by (simp add: route_eval matches_phone_pattern_def is_digit_def is_space_def)

text \<open>
  A phone number that the route lets through is accepted by \<open>validatePhoneNumber\<close> as well:
  the validation inside \<open>AuthService\<close> never rejects a request that reached it.
\<close>

lemma matched_phone_passes_service:
  assumes "matches_phone_pattern p"
  shows "validatePhoneNumber p = (True, None)"
proof -
  from assms have t: "take 4 p = ''+977''" and d: "list_all is_digit (drop 4 p)"
    by (simp_all add: matches_phone_pattern_def)
  have a: "\<forall>c \<in> set (take 4 p). \<not> (is_space c \<or> c = CHR ''-'')"
    unfolding t by (simp add: is_space_def)
  have b: "\<forall>c \<in> set (drop 4 p). \<not> (is_space c \<or> c = CHR ''-'')"
    using d by (auto simp: list_all_iff is_digit_def is_space_def)
  have "set p = set (take 4 p) \<union> set (drop 4 p)"
    by (metis append_take_drop_id set_append)
  then have "\<forall>c \<in> set p. \<not> (is_space c \<or> c = CHR ''-'')"
    using a b by blast
  then have "filter (\<lambda>c. \<not> (is_space c \<or> c = CHR ''-'')) p = p"
    by (simp add: filter_id_conv)
  then show ?thesis
    using assms by (simp add: validatePhoneNumber_def)
qed

text \<open>A successful registration creates the user with counter 0 and the default quota.\<close>

lemma register_example:
  "register example_auth
     \<lparr>reg_phoneNumber = ''+9779822222222'', reg_password = ''Password123'',
      reg_fullName = ''Second User''\<rparr> example_world
   = (Returned (Success (\<lparr>user_id = ''u2'', user_email = [],
          user_phoneNumber = ''+9779822222222'', user_fullName = ''Second User'',
          user_country = ''Nepal''\<rparr>, ''token:u2'')),
      example_world\<lparr>users := [example_user,
          \<lparr>u_id = ''u2'', u_phone_number = ''+9779822222222'',
           u_password_hash = ''hash:Password123'', u_full_name = ''Second User'',
           u_country = ''Nepal'', u_storage_used = 0, u_storage_quota = 104857600\<rparr>],
        user_profiles := [''u1'', ''u2'']\<rparr>)"
  by (simp add: auth_eval example_defs Let_def)

subsection \<open>A reply of the language model that is not JSON\<close>

text \<open>
  C8. When \<open>JSON.parse\<close> throws on the reply, the analysis object is
  \<open>{extractedText: '', summary: <the reply>, insights: []}\<close>; reading its three properties
  raises nothing, and the row handed to the \<open>INSERT\<close> has the reply as summary (\<open>NULL\<close> for
  an empty reply, by \<open>summary || null\<close>), \<open>NULL\<close> as extracted text (by \<open>'' || null\<close>) and the
  empty array as insights. The method raises only if the \<open>INSERT\<close> itself does.
\<close>

theorem C8_non_json_reply_becomes_summary:
  assumes "parse reply = None"
  shows "parse_analysis parse reply
           = JObj [(''extractedText'', JStr []), (''summary'', JStr reply), (''insights'', JArr [])]
    \<and> get_prop (parse_analysis parse reply) ''summary'' = Inr (Some (JStr reply))
    \<and> get_prop (parse_analysis parse reply) ''extractedText'' = Inr (Some (JStr []))
    \<and> get_prop (parse_analysis parse reply) ''insights'' = Inr (Some (JArr []))
    \<and> analysis_params documentId (parse_analysis parse reply)
         = Inr \<lparr>a_document_id = documentId, a_extracted_text = None,
                a_summary = (if reply = [] then None else Some (JStr reply)),
                a_insights = Some (JArr [])\<rparr>
    \<and> processDocumentWithAI parse (LlmReplies (TextBlock reply # rest)) documentId buf mimeType w
         = (case insert_analysis
                   \<lparr>a_document_id = documentId, a_extracted_text = None,
                    a_summary = (if reply = [] then None else Some (JStr reply)),
                    a_insights = Some (JArr [])\<rparr> w of
              Inl x \<Rightarrow> (Raised x, set_status FAILED documentId w)
            | Inr w1 \<Rightarrow> (Returned (), set_status PROCESSED documentId w1))"
  using assms
  by (simp add: parse_analysis_def analysis_params_def processDocumentWithAI_def
      json_or_null_def json_or_empty_def truthy_opt_def Let_def)

theorem C8_witness:
  "(\<lambda>s. None :: json option) ''Hemoglobin is normal.'' = None
   \<and> parse_analysis (\<lambda>s. None) ''Hemoglobin is normal.''
       = JObj [(''extractedText'', JStr []), (''summary'', JStr ''Hemoglobin is normal.''),
               (''insights'', JArr [])]
   \<and> processDocumentWithAI (\<lambda>s. None) (LlmReplies [TextBlock ''Hemoglobin is normal.''])
        ''d1'' ''abc'' ''image/png'' example_world1
       = (Returned (),
          example_world1
            \<lparr>documents := [example_doc\<lparr>d_status := PROCESSED\<rparr>],
             document_ai_analysis :=
               [\<lparr>a_document_id = ''d1'', a_extracted_text = None,
                 a_summary = Some (JStr ''Hemoglobin is normal.''),
                 a_insights = Some (JArr [])\<rparr>]\<rparr>)"
  using C8_non_json_reply_becomes_summary
    [of "\<lambda>s. None" "''Hemoglobin is normal.''" "''d1''" "[]" "''abc''" "''image/png''"
        example_world1]
  by (simp add: insert_analysis_def set_status_def example_defs)

subsection \<open>\<open>updateDocument\<close> without fields\<close>

text \<open>
  C9. For a document that the lookup scoped to the caller finds, \<open>updateDocument\<close> with none
  of \<open>title\<close>, \<open>description\<close>, \<open>notes\<close>, \<open>type\<close> provided leaves the state as it is and
  answers what \<open>getDocument\<close> answers: the document as stored.
\<close>

theorem C9_update_without_fields_is_noop:
  assumes "select_document did uid w = Some row"
    and "upd_title u = None" and "upd_description u = None"
    and "upd_notes u = None" and "upd_type u = None"
  shows "updateDocument did uid u w
           = (Success (mapDbDocumentToDocument row (select_analysis did w)), w)
    \<and> getDocument did uid w = Success (mapDbDocumentToDocument row (select_analysis did w))"
  using assms
  by (simp add: updateDocument_def build_updates_def getDocument_def)

theorem C9_witness:
  "select_document ''d1'' ''u1'' example_world1 = Some example_doc
   \<and> updateDocument ''d1'' ''u1''
        \<lparr>upd_title = None, upd_description = None, upd_notes = None, upd_type = None\<rparr>
        example_world1
       = (Success (mapDbDocumentToDocument example_doc None), example_world1)"
  using C9_update_without_fields_is_noop
    [of "''d1''" "''u1''" example_world1 example_doc
        "\<lparr>upd_title = None, upd_description = None, upd_notes = None, upd_type = None\<rparr>"]
  by (simp add: example_defs select_document_def select_analysis_def)

text \<open>With fields provided, exactly these are written.\<close>

lemma update_example:
  "updateDocument ''d1'' ''u1''
        \<lparr>upd_title = Some ''CBC'', upd_description = None, upd_notes = Some ''fasting'',
         upd_type = None\<rparr> example_world1
       = (Success (mapDbDocumentToDocument
                     (example_doc\<lparr>d_title := Some ''CBC'', d_notes := Some ''fasting''\<rparr>) None),
          example_world1\<lparr>documents :=
            [example_doc\<lparr>d_title := Some ''CBC'', d_notes := Some ''fasting''\<rparr>]\<rparr>)"
  by (simp add: updateDocument_def build_updates_def getDocument_def example_defs
      select_document_def select_analysis_def Let_def)

subsection \<open>The size recorded by an upload\<close>

lemma upload_success:
  assumes "uploadDocument e documentId uid file metadata w = (Success doc, w')"
  shows "\<exists>row. d_id row = documentId \<and> d_user_id row = uid
      \<and> d_file_size row = int (length (buffer file))
      \<and> documentId \<notin> set (map d_id (documents w))
      \<and> documents w' = documents w @ [row]
      \<and> users w' = map (\<lambda>r. if u_id r = uid
                   then r\<lparr>u_storage_used := u_storage_used r + int (length (buffer file))\<rparr>
                   else r) (users w)
      \<and> doc = mapDbDocumentToDocument row None"
proof (cases "s3_uploadDocument e (buffer file) (mimetype file) uid w")
  case (Inl a)
  then show ?thesis
    using assms by (simp add: uploadDocument_def split: prod.splits bool.splits if_splits)
next
  case (Inr p)
  obtain res w1 where p: "p = (res, w1)" by (cases p)
  note t = s3_upload_tables[OF Inr[unfolded p]]
  define row where "row =
     \<lparr>d_id = documentId, d_user_id = uid,
      d_type = (case req_type metadata of Some t \<Rightarrow> t | None \<Rightarrow> OTHER),
      d_title = Some (case or_null (req_title metadata) of
                        Some t \<Rightarrow> t | None \<Rightarrow> ''Untitled Document''),
      d_description = or_null (req_description metadata), d_notes = None,
      d_file_url = fileUrl res, d_thumbnail_url = or_null (thumbnailUrl res),
      d_file_size = fileSize res, d_mime_type = mimetype file,
      d_status = PENDING_PROCESSING, d_ocr_status = None\<rparr>"
  have "\<exists>w2. insert_document row w1 = Some w2
          \<and> add_storage_used (fileSize res) uid w2 = Some w'
          \<and> doc = mapDbDocumentToDocument row None"
    using assms Inr p
    by (simp add: uploadDocument_def Let_def row_def
        split: if_splits prod.splits bool.splits option.splits)
  then obtain w2 where w2: "insert_document row w1 = Some w2"
    "add_storage_used (fileSize res) uid w2 = Some w'" "doc = mapDbDocumentToDocument row None"
    by blast
  from w2(1) have ins: "documentId \<notin> set (map d_id (documents w))"
    "documents w2 = documents w @ [row]" "users w2 = users w"
    using t by (auto simp: insert_document_def row_def split: if_splits)
  from w2(2) have add: "documents w' = documents w2"
    "users w' = map (\<lambda>r. if u_id r = uid
                   then r\<lparr>u_storage_used := u_storage_used r + fileSize res\<rparr>
                   else r) (users w2)"
    by (auto simp: add_storage_used_def split: if_splits)
  have "d_id row = documentId" "d_user_id row = uid" "d_file_size row = int (length (buffer file))"
    using t by (simp_all add: row_def)
  then show ?thesis
    using ins add w2(3) t by auto
qed

text \<open>
  C10. The storage gateway reports \<open>buffer.length\<close> as \<open>fileSize\<close>. After a successful
  upload of a file as multer's memory storage delivers it (\<open>size\<close> is the length of
  \<open>buffer\<close>), the answer's \<open>fileSize\<close>, the \<open>file_size\<close> of the new row and the amount added
  to the user's \<open>storage_used\<close> are all the size of the incoming file.
\<close>

theorem C10_persisted_size_is_buffer_length:
  assumes "uploadDocument e documentId uid file metadata w = (Success doc, w')"
    and "size_file file = int (length (buffer file))"
  shows "(\<forall>res w1. s3_uploadDocument e (buffer file) (mimetype file) uid w = Inr (res, w1)
            \<longrightarrow> fileSize res = int (length (buffer file)))
    \<and> doc_fileSize doc = size_file file
    \<and> map_option d_file_size (select_document documentId uid w') = Some (size_file file)
    \<and> storageUsed uid w' = map_option (\<lambda>used. used + size_file file) (storageUsed uid w)"
proof -
  let ?n = "int (length (buffer file))"
  let ?g = "\<lambda>r. if u_id r = uid then r\<lparr>u_storage_used := u_storage_used r + ?n\<rparr> else r"
  from upload_success[OF assms(1)] obtain row where row:
    "d_id row = documentId" "d_user_id row = uid" "d_file_size row = ?n"
    "documentId \<notin> set (map d_id (documents w))" "documents w' = documents w @ [row]"
    "users w' = map ?g (users w)" "doc = mapDbDocumentToDocument row None"
    by blast
  have s3: "\<forall>res w1. s3_uploadDocument e (buffer file) (mimetype file) uid w = Inr (res, w1)
            \<longrightarrow> fileSize res = ?n"
    by (auto dest: s3_upload_tables)
  have doc: "doc_fileSize doc = size_file file"
    by (simp add: row(3,7) assms(2) mapDbDocumentToDocument_def)
  have "find (\<lambda>r. d_id r = documentId \<and> d_user_id r = uid) (documents w) = None"
    using row(4) by (auto simp: find_None_iff)
  then have sel: "select_document documentId uid w' = Some row"
    by (simp add: select_document_def row(1,2,5) find_snoc)
  have "storageUsed uid w' = map_option (\<lambda>x. u_storage_used (?g x)) (select_user uid w)"
    by (rule storageUsed_map[OF row(6)]) simp
  then have used: "storageUsed uid w' = map_option (\<lambda>used. used + size_file file) (storageUsed uid w)"
    by (cases "select_user uid w") (auto simp: storageUsed_def assms(2) dest: select_user_id)
  show ?thesis using s3 doc sel used by (simp add: row(3) assms(2))
qed

theorem C10_witness:
  "uploadDocument example_s3 ''d1'' ''u1'' example_file example_request example_world
     = (Success (mapDbDocumentToDocument example_doc None), example_world1)
   \<and> size_file example_file = int (length (buffer example_file))
   \<and> doc_fileSize (mapDbDocumentToDocument example_doc None) = 3
   \<and> map_option d_file_size (select_document ''d1'' ''u1'' example_world1) = Some 3
   \<and> storageUsed ''u1'' example_world = Some 0
   \<and> storageUsed ''u1'' example_world1 = Some 3"
proof -
  have up: "uploadDocument example_s3 ''d1'' ''u1'' example_file example_request example_world
     = (Success (mapDbDocumentToDocument example_doc None), example_world1)"
    by (simp add: uploadDocument_def quota_eval example_defs s3_eval db_eval
        formatFileSize_eval Let_def)
  have sz: "size_file example_file = int (length (buffer example_file))"
    by (simp add: example_file_def)
  show ?thesis
    using C10_persisted_size_is_buffer_length [OF up sz] up sz
    by (simp add: example_defs db_eval)
qed

end
